theory Spec2Isabelle
  imports Main "HOL-Library.AList"
begin

section \<open>Warp task tracker: session registry and task lifecycle\<close>

text \<open>
  A shallow embedding of two classes of the repository:
  \<^item> \<open>WarpSessionManager\<close> (the session registry): \<open>getWarpSessions\<close>,
    \<open>detectSessionChanges\<close> and the constructor;
  \<^item> \<open>TaskTracker\<close> (the task lifecycle): \<open>loadData\<close>, \<open>saveData\<close>,
    \<open>startTask\<close>, \<open>updateProgress\<close>, \<open>completeTask\<close>, \<open>stopTask\<close>,
    \<open>createTaskForSession\<close>, \<open>handleClosedSession\<close>,
    \<open>updateSessionTaskProgress\<close> and \<open>setCurrentTaskFromSession\<close>.

  Everything outside the process is a parameter of the model: the outcome of the
  \<open>osascript\<close> call, the clock, and whether a write to the data file goes through.
\<close>

subsection \<open>JavaScript containers\<close>

text \<open>
  A JavaScript \<open>Set\<close> iterates in insertion order and holds each element once: it is
  modelled as a list without duplicates, \<open>new Set(xs)\<close> keeping the first occurrence of
  every element. A JavaScript \<open>Map\<close> is an association list: \<open>set\<close> overwrites the
  value of a key in place or appends a new entry (\<open>AList.update\<close>), \<open>delete\<close> removes
  the entry of a key (\<open>AList.delete\<close>), \<open>get\<close> is \<open>map_of\<close>.
\<close>

definition Set_add :: "'a \<Rightarrow> 'a list \<Rightarrow> 'a list" where
  "Set_add x s = (if x \<in> set s then s else s @ [x])"

definition new_Set :: "'a list \<Rightarrow> 'a list" where
  "new_Set xs = fold Set_add xs []"

definition Set_has :: "'a list \<Rightarrow> 'a \<Rightarrow> bool" where
  "Set_has s x = (x \<in> set s)"

definition Map_keys :: "('k \<times> 'v) list \<Rightarrow> 'k set" where
  "Map_keys m = fst ` set m"

subsection \<open>The session registry (WarpSessionManager)\<close>

text \<open>
  An enriched session, as \<open>enrichSessionsWithWorkingDir\<close> builds it. \<open>lastSeen\<close> is
  the clock reading whose ISO string the source stores.
\<close>

record session =
  title :: string
  windowId :: nat
  sessionId :: string
  workingDir :: string
  projectName :: string
  taskName :: string
  lastSeen :: nat

text \<open>
  The body of the \<open>try\<close> block of \<open>getWarpSessions\<close> runs \<open>osascript\<close>, parses its
  output and enriches every parsed session. \<open>ProbeOk ss\<close> stands for a run in which
  nothing throws and \<open>ss\<close> is the value of \<open>enrichedSessions\<close>; \<open>ProbeFailed\<close> stands
  for a run in which the block throws.
\<close>

datatype probe = ProbeFailed | ProbeOk "session list"

text \<open>\<open>catch (error) { console.error(...); return []; }\<close>\<close>

fun getWarpSessions :: "probe \<Rightarrow> session list" where
  "getWarpSessions ProbeFailed = []"
| "getWarpSessions (ProbeOk enrichedSessions) = enrichedSessions"

text \<open>The two fields the constructor initialises and \<open>detectSessionChanges\<close> uses.\<close>

record registry =
  activeSessions :: "(string \<times> session) list"
  lastKnownSessions :: "string list"

definition new_WarpSessionManager :: registry where
  "new_WarpSessionManager = \<lparr>activeSessions = [], lastKnownSessions = []\<rparr>"

record changes =
  newSessions :: "session list"
  closedSessions :: "string list"
  allSessions :: "session list"

definition detectSessionChanges :: "probe \<Rightarrow> registry \<Rightarrow> changes \<times> registry" where
  "detectSessionChanges p r =
     (let currentSessions = getWarpSessions p;
          currentSessionIds = new_Set (map sessionId currentSessions);
          newSessions' = filter (\<lambda>s. \<not> Set_has (lastKnownSessions r) (sessionId s)) currentSessions;
          closedSessionIds = filter (\<lambda>sid. \<not> Set_has currentSessionIds sid) (lastKnownSessions r);
          active1 = fold (\<lambda>s m. AList.update (sessionId s) s m) currentSessions (activeSessions r);
          active2 = fold (\<lambda>sid m. AList.delete sid m) closedSessionIds active1
      in (\<lparr>newSessions = newSessions', closedSessions = closedSessionIds,
            allSessions = currentSessions\<rparr>,
          \<lparr>activeSessions = active2, lastKnownSessions = currentSessionIds\<rparr>))"

text \<open>
  The timer of \<open>startSessionMonitoring\<close> calls \<open>detectSessionChanges\<close> once per tick;
  \<open>poll_sequence\<close> runs the ticks whose probe outcomes are given, oldest first.
\<close>

fun poll_sequence :: "probe list \<Rightarrow> registry \<Rightarrow> registry" where
  "poll_sequence [] r = r"
| "poll_sequence (p # ps) r = poll_sequence ps (snd (detectSessionChanges p r))"

subsection \<open>Tasks and the data file (TaskTracker)\<close>

text \<open>
  \<open>Date.now().toString()\<close> and the template literals print a non-negative integer in
  decimal.
\<close>

definition digit_char :: "nat \<Rightarrow> char" where
  "digit_char d = ''0123456789'' ! d"

function toString_nat :: "nat \<Rightarrow> string" where
  "toString_nat n =
     (if n < 10 then [digit_char n] else toString_nat (n div 10) @ [digit_char (n mod 10)])"
  by pat_completeness auto
termination
  by (relation "measure (\<lambda>n. n)") auto

declare toString_nat.simps [simp del]

text \<open>The three values the source gives the \<open>status\<close> field: \<open>'in-progress'\<close>,
  \<open>'completed'\<close>, \<open>'stopped'\<close>.\<close>

datatype task_status = InProgress | Completed | Stopped

text \<open>An entry of \<open>task.updates\<close>: \<open>{timestamp, progress, message}\<close>.\<close>

record progress_update =
  upd_timestamp :: nat
  upd_progress :: int
  upd_message :: string

text \<open>\<open>task.sessionInfo\<close>: \<open>{windowId, projectName, workingDir, title}\<close>.\<close>

record session_info =
  info_windowId :: nat
  info_projectName :: string
  info_workingDir :: string
  info_title :: string

text \<open>
  A task object. The fields \<open>endTime\<close>, \<open>completionMessage\<close>, \<open>sessionId\<close> and
  \<open>sessionInfo\<close> are absent from an object until the source assigns them: they are
  options. The field \<open>id\<close> is \<open>task_id\<close> and the field \<open>sessionId\<close> is
  \<open>task_sessionId\<close> here. Times are clock readings in milliseconds; the percentage is an
  integer.
\<close>

record task =
  task_id :: string
  name :: string
  description :: string
  startTime :: nat
  progress :: int
  updates :: "progress_update list"
  status :: task_status
  endTime :: "nat option"
  completionMessage :: "string option"
  task_sessionId :: "string option"
  sessionInfo :: "session_info option"

text \<open>The content of \<open>tasks.json\<close>: \<open>{ currentTask, history }\<close>.\<close>

record data =
  currentTask :: "task option"
  history :: "task list"

text \<open>
  The tracker: the data file (\<open>None\<close> when it is missing or unreadable) and the
  in-memory map \<open>activeTasks\<close> from session id to task. The data file holds JSON, so it
  shares no object with \<open>activeTasks\<close>; the objects of \<open>activeTasks\<close> are mutated in
  place by the source, which is an update of the entry here.
\<close>

text \<open>
  The constructor calls \<open>initializeData()\<close> without awaiting it, so the method runs
  beside the operations called on the new tracker. Its part on the data file has three
  stages: started (the directory is being made, \<open>pathExists(dataFile)\<close> not yet
  answered), a write of the empty data pending (\<open>pathExists\<close> has answered false and
  \<open>saveData({ currentTask: null, history: [] })\<close> has not landed), and finished.
\<close>

datatype init_stage = InitStarted | InitWritePending | InitFinished

record tracker =
  dataFile :: "data option"
  activeTasks :: "(string \<times> task) list"
  initStage :: init_stage

text \<open>
  What a call finds outside the process: the clock (one reading per call) and whether
  \<open>fs.writeJson\<close> on the data file succeeds. A failed write leaves the file as it was.
\<close>

record env =
  now :: nat
  write_ok :: bool

text \<open>
  What the source throws: the two \<open>new Error(...)\<close> of the session operations, the
  rejection of \<open>fs.writeJson\<close>, and the \<open>RangeError\<close> (invalid count value) of
  \<open>String.prototype.repeat\<close> inside \<open>createProgressBar\<close>.
\<close>

datatype error =
    NoTaskForSession string
  | ProgressOutOfRange
  | WriteFailed
  | InvalidCount

text \<open>
  What a call prints: \<open>console.log\<close> and \<open>console.error\<close> lines (the text without
  colour, emoji and quotation marks) and the boxes of \<open>displayTask(task, detailed)\<close>. The desktop
  notifications and the configuration file they depend on are not modelled.
\<close>

datatype event =
    ConsoleLog string
  | ConsoleError string
  | DisplayTask task bool

text \<open>
  An asynchronous method either resolves with a value (\<open>Inr\<close>) or rejects with an error
  (\<open>Inl\<close>); a method that ends with a bare \<open>return\<close> resolves with \<open>undefined\<close>,
  the value \<open>()\<close>. Beside that it leaves printed lines and a tracker.
\<close>

type_synonym 'a result = "(error + 'a) \<times> event list \<times> tracker"

definition outcome :: "'a result \<Rightarrow> error + 'a" where
  "outcome r = fst r"

definition printed :: "'a result \<Rightarrow> event list" where
  "printed r = fst (snd r)"

definition after :: "'a result \<Rightarrow> tracker" where
  "after r = snd (snd r)"

text \<open>
  \<open>createProgressBar(percentage, length)\<close> computes
  \<open>filled = Math.round((percentage / 100) * length)\<close> and \<open>empty = length - filled\<close>
  and repeats one character \<open>filled\<close> times and another \<open>empty\<close> times; \<open>repeat\<close>
  throws on a negative count. \<open>Math.round\<close> rounds halves up. The result is the pair of
  counts.
\<close>

definition createProgressBar :: "int \<Rightarrow> nat \<Rightarrow> error + nat \<times> nat" where
  "createProgressBar percentage length' =
     (let filled = (percentage * int length' + 50) div 100;
          empty = int length' - filled
      in if filled < 0 \<or> empty < 0 then Inl InvalidCount else Inr (nat filled, nat empty))"

text \<open>
  \<open>displayTask(task, detailed)\<close> draws the bar with the default length 30 and prints one
  box; nothing else in it throws.
\<close>

definition displayTask :: "task \<Rightarrow> bool \<Rightarrow> error + event list" where
  "displayTask t detailed =
     (case createProgressBar (progress t) 30 of
        Inl err \<Rightarrow> Inl err
      | Inr bar \<Rightarrow> Inr [DisplayTask t detailed])"

text \<open>\<open>loadData\<close>: \<open>catch (error) { return { currentTask: null, history: [] }; }\<close>\<close>

definition loadData :: "tracker \<Rightarrow> data" where
  "loadData s = (case dataFile s of
       None \<Rightarrow> \<lparr>currentTask = None, history = []\<rparr>
     | Some d \<Rightarrow> d)"

definition saveData :: "env \<Rightarrow> data \<Rightarrow> tracker \<Rightarrow> error + tracker" where
  "saveData e d s = (if write_ok e then Inr (s\<lparr>dataFile := Some d\<rparr>) else Inl WriteFailed)"

text \<open>
  \<open>new TaskTracker()\<close> on a file system whose data file is \<open>file\<close>: the map is empty
  and \<open>initializeData\<close> has been started, nothing of it awaited.
\<close>

definition TaskTracker_constructor :: "data option \<Rightarrow> tracker" where
  "TaskTracker_constructor file = \<lparr>dataFile = file, activeTasks = [], initStage = InitStarted\<rparr>"

text \<open>
  One step of the pending \<open>initializeData\<close>, taken between two operations. From
  \<open>InitStarted\<close> it is the answer of \<open>pathExists(dataFile)\<close>: with no data file the
  write of the empty data becomes pending, otherwise the method has nothing to write.
  From \<open>InitWritePending\<close> it is that write landing, on whatever the data file holds by
  then; when the write fails the rejection is handled by nobody and the file stays. An
  existing file that is not valid JSON is not told apart from a missing one in this
  model (\<open>dataFile = None\<close> for both).
\<close>

definition initializeData_step :: "env \<Rightarrow> tracker \<Rightarrow> tracker" where
  "initializeData_step e s =
     (case initStage s of
        InitStarted \<Rightarrow>
          if dataFile s = None then s\<lparr>initStage := InitWritePending\<rparr>
          else s\<lparr>initStage := InitFinished\<rparr>
      | InitWritePending \<Rightarrow>
          (case saveData e \<lparr>currentTask = None, history = []\<rparr> s of
             Inl err \<Rightarrow> s\<lparr>initStage := InitFinished\<rparr>
           | Inr s' \<Rightarrow> s'\<lparr>initStage := InitFinished\<rparr>)
      | InitFinished \<Rightarrow> s)"

text \<open>
  A tracker constructed on a first run (no data file) whose \<open>initializeData\<close> has run to
  its end before any operation is called: the check, then the write of the empty data.
\<close>

definition new_TaskTracker :: tracker where
  "new_TaskTracker =
     initializeData_step \<lparr>now = 0, write_ok = True\<rparr>
       (initializeData_step \<lparr>now = 0, write_ok = True\<rparr> (TaskTracker_constructor None))"

subsection \<open>Manual operations\<close>

definition startTask :: "env \<Rightarrow> string \<Rightarrow> string \<Rightarrow> tracker \<Rightarrow> unit result" where
  "startTask e taskName' description' s =
     (let d = loadData s in
      case currentTask d of
        Some cur \<Rightarrow>
          (case displayTask cur False of
             Inl err \<Rightarrow> (Inl err, [ConsoleLog ''A task is already in progress:''], s)
           | Inr box \<Rightarrow>
               (Inr (),
                [ConsoleLog ''A task is already in progress:''] @ box @
                [ConsoleLog ''Please complete or stop the current task first.''],
                s))
      | None \<Rightarrow>
          (let newTask = \<lparr>task_id = toString_nat (now e), name = taskName',
                 description = description', startTime = now e, progress = 0, updates = [],
                 status = InProgress, endTime = None, completionMessage = None,
                 task_sessionId = None, sessionInfo = None\<rparr>
           in case saveData e (d\<lparr>currentTask := Some newTask\<rparr>) s of
                Inl err \<Rightarrow> (Inl err, [], s)
              | Inr s' \<Rightarrow>
                  (case displayTask newTask False of
                     Inl err \<Rightarrow> (Inl err, [ConsoleLog ''Started tracking new task:''], s')
                   | Inr box \<Rightarrow>
                       (Inr (), [ConsoleLog ''Started tracking new task:''] @ box, s'))))"

definition updateProgress :: "env \<Rightarrow> int \<Rightarrow> string \<Rightarrow> tracker \<Rightarrow> unit result" where
  "updateProgress e percentage message s =
     (let d = loadData s in
      case currentTask d of
        None \<Rightarrow>
          (Inr (),
           [ConsoleLog ''No active task found. Start a task first with: warp-tracker start Task name''],
           s)
      | Some cur \<Rightarrow>
          if percentage < 0 \<or> percentage > 100 then
            (Inr (), [ConsoleLog ''Progress percentage must be between 0 and 100''], s)
          else
            (let previousProgress = progress cur;
                 cur' = cur\<lparr>progress := percentage,
                          updates := updates cur @
                            [\<lparr>upd_timestamp = now e, upd_progress = percentage,
                              upd_message = message\<rparr>]\<rparr>;
                 change = percentage - previousProgress
             in case saveData e (d\<lparr>currentTask := Some cur'\<rparr>) s of
                  Inl err \<Rightarrow> (Inl err, [], s)
                | Inr s' \<Rightarrow>
                    (case displayTask cur' False of
                       Inl err \<Rightarrow> (Inl err, [ConsoleLog ''Progress updated:''], s')
                     | Inr box \<Rightarrow>
                         (Inr (),
                          [ConsoleLog ''Progress updated:''] @ box @
                          (if change > 0
                           then [ConsoleLog (''+'' @ toString_nat (nat change) @ ''% progress'')]
                           else []),
                          s'))))"

definition completeTask :: "env \<Rightarrow> string \<Rightarrow> tracker \<Rightarrow> unit result" where
  "completeTask e message s =
     (let d = loadData s in
      case currentTask d of
        None \<Rightarrow> (Inr (), [ConsoleLog ''No active task to complete''], s)
      | Some cur \<Rightarrow>
          (let cur' = cur\<lparr>endTime := Some (now e), status := Completed, progress := 100,
                          completionMessage :=
                            (if message \<noteq> [] then Some message else completionMessage cur)\<rparr>
           in case saveData e \<lparr>currentTask = None, history = cur' # history d\<rparr> s of
                Inl err \<Rightarrow> (Inl err, [], s)
              | Inr s' \<Rightarrow>
                  (case displayTask cur' False of
                     Inl err \<Rightarrow> (Inl err, [ConsoleLog ''Task completed!''], s')
                   | Inr box \<Rightarrow> (Inr (), [ConsoleLog ''Task completed!''] @ box, s'))))"

definition stopTask :: "env \<Rightarrow> tracker \<Rightarrow> unit result" where
  "stopTask e s =
     (let d = loadData s in
      case currentTask d of
        None \<Rightarrow> (Inr (), [ConsoleLog ''No active task to stop''], s)
      | Some cur \<Rightarrow>
          (let cur' = cur\<lparr>endTime := Some (now e), status := Stopped\<rparr>
           in case saveData e \<lparr>currentTask = None, history = cur' # history d\<rparr> s of
                Inl err \<Rightarrow> (Inl err, [], s)
              | Inr s' \<Rightarrow>
                  (Inr (), [ConsoleLog ''Task stopped and saved to history''], s')))"

subsection \<open>Session-bound operations\<close>

text \<open>
  \<open>createTaskForSession\<close>. Nothing in its \<open>try\<close> block throws in this model, so the
  \<open>catch\<close> branch (\<open>return null\<close>) is never taken and the result is always a task.
\<close>

definition createTaskForSession :: "env \<Rightarrow> session \<Rightarrow> tracker \<Rightarrow> task option \<times> tracker" where
  "createTaskForSession e session' s =
     (case map_of (activeTasks s) (sessionId session') of
        Some existing \<Rightarrow> (Some existing, s)
      | None \<Rightarrow>
          (let newTask = \<lparr>task_id = sessionId session' @ ''_'' @ toString_nat (now e),
                 name = taskName session',
                 description = ''Auto-generated task for '' @ projectName session' @
                   [CHR 0x0A] @ ''Working directory: '' @ workingDir session',
                 startTime = now e, progress = 0, updates = [], status = InProgress,
                 endTime = None, completionMessage = None,
                 task_sessionId = Some (sessionId session'),
                 sessionInfo = Some \<lparr>info_windowId = windowId session',
                   info_projectName = projectName session',
                   info_workingDir = workingDir session',
                   info_title = title session'\<rparr>\<rparr>
           in (Some newTask,
               s\<lparr>activeTasks := AList.update (sessionId session') newTask (activeTasks s)\<rparr>)))"

text \<open>
  \<open>handleClosedSession\<close> sets \<open>endTime\<close> and \<open>status\<close> on the object held by
  \<open>activeTasks\<close> before it loads the data file, and deletes the entry only after the
  write; a failed write is caught and logged, and the method returns all the same.
\<close>

definition handleClosedSession :: "env \<Rightarrow> string \<Rightarrow> tracker \<Rightarrow> unit result" where
  "handleClosedSession e sid s =
     (case map_of (activeTasks s) sid of
        None \<Rightarrow> (Inr (), [], s)
      | Some task' \<Rightarrow>
          (let stopped = task'\<lparr>endTime := Some (now e), status := Stopped\<rparr>;
               s1 = s\<lparr>activeTasks := AList.update sid stopped (activeTasks s)\<rparr>;
               d = loadData s1;
               d1 = d\<lparr>history := stopped # history d\<rparr>;
               d2 = (case currentTask d1 of
                       Some cur \<Rightarrow>
                         if task_sessionId cur = Some sid then d1\<lparr>currentTask := None\<rparr> else d1
                     | None \<Rightarrow> d1)
           in case saveData e d2 s1 of
                Inl err \<Rightarrow> (Inr (), [ConsoleError ''Error handling closed session:''], s1)
              | Inr s2 \<Rightarrow> (Inr (), [], s2\<lparr>activeTasks := AList.delete sid (activeTasks s2)\<rparr>)))"

definition updateSessionTaskProgress ::
  "env \<Rightarrow> string \<Rightarrow> int \<Rightarrow> string \<Rightarrow> tracker \<Rightarrow> task result" where
  "updateSessionTaskProgress e sid percentage message s =
     (case map_of (activeTasks s) sid of
        None \<Rightarrow> (Inl (NoTaskForSession sid), [], s)
      | Some task' \<Rightarrow>
          if percentage < 0 \<or> percentage > 100 then (Inl ProgressOutOfRange, [], s)
          else
            (let updated = task'\<lparr>progress := percentage,
                     updates := updates task' @
                       [\<lparr>upd_timestamp = now e, upd_progress = percentage,
                         upd_message = message\<rparr>]\<rparr>;
                 s1 = s\<lparr>activeTasks := AList.update sid updated (activeTasks s)\<rparr>;
                 d = loadData s1
             in case currentTask d of
                  None \<Rightarrow> (Inr updated, [], s1)
                | Some cur \<Rightarrow>
                    if task_sessionId cur = Some sid then
                      (case saveData e (d\<lparr>currentTask := Some updated\<rparr>) s1 of
                         Inl err \<Rightarrow> (Inl err, [], s1)
                       | Inr s2 \<Rightarrow> (Inr updated, [], s2))
                    else (Inr updated, [], s1)))"

definition setCurrentTaskFromSession :: "env \<Rightarrow> string \<Rightarrow> tracker \<Rightarrow> task result" where
  "setCurrentTaskFromSession e sid s =
     (case map_of (activeTasks s) sid of
        None \<Rightarrow> (Inl (NoTaskForSession sid), [], s)
      | Some task' \<Rightarrow>
          (let d = loadData s in
           case saveData e (d\<lparr>currentTask := Some task'\<rparr>) s of
             Inl err \<Rightarrow> (Inl err, [], s)
           | Inr s' \<Rightarrow> (Inr task', [], s')))"

subsection \<open>Sequences of calls\<close>

text \<open>
  A call of one of the eight operations, and the tracker a sequence of calls leaves, each
  call with the environment it meets.
\<close>

datatype operation =
    StartTask string string
  | UpdateProgress int string
  | CompleteTask string
  | StopTask
  | CreateTaskForSession session
  | HandleClosedSession string
  | UpdateSessionTaskProgress string int string
  | SetCurrentTaskFromSession string

fun run_op :: "env \<Rightarrow> operation \<Rightarrow> tracker \<Rightarrow> tracker" where
  "run_op e (StartTask n d) s = after (startTask e n d s)"
| "run_op e (UpdateProgress p m) s = after (updateProgress e p m s)"
| "run_op e (CompleteTask m) s = after (completeTask e m s)"
| "run_op e StopTask s = after (stopTask e s)"
| "run_op e (CreateTaskForSession x) s = snd (createTaskForSession e x s)"
| "run_op e (HandleClosedSession sid) s = after (handleClosedSession e sid s)"
| "run_op e (UpdateSessionTaskProgress sid p m) s = after (updateSessionTaskProgress e sid p m s)"
| "run_op e (SetCurrentTaskFromSession sid) s = after (setCurrentTaskFromSession e sid s)"

fun run_ops :: "(env \<times> operation) list \<Rightarrow> tracker \<Rightarrow> tracker" where
  "run_ops [] s = s"
| "run_ops ((e, c) # cs) s = run_ops cs (run_op e c s)"

subsection \<open>Concrete values\<close>

text \<open>
  The sessions, environments, tasks and trackers at which the statements below are
  evaluated. Every tracker listed is one the operations reach from \<open>new_TaskTracker\<close>,
  with \<open>initializeData\<close> finished.
\<close>

definition session_1 :: session where
  "session_1 = \<lparr>title = ''zsh - ~/projects/alpha'', windowId = 1, sessionId = ''warp_1'',
     workingDir = ''~/projects/alpha'', projectName = ''Alpha'',
     taskName = ''Alpha Development (09:00 AM)'', lastSeen = 1000\<rparr>"

definition session_2 :: session where
  "session_2 = \<lparr>title = ''zsh - ~/projects/beta'', windowId = 2, sessionId = ''warp_2'',
     workingDir = ''~/projects/beta'', projectName = ''Beta'',
     taskName = ''Beta Development (09:05 AM)'', lastSeen = 2000\<rparr>"

definition env_at :: "nat \<Rightarrow> env" where
  "env_at t = \<lparr>now = t, write_ok = True\<rparr>"

definition task_B :: task where
  "task_B = \<lparr>task_id = ''1000'', name = ''B'', description = '''', startTime = 1000,
     progress = 0, updates = [], status = InProgress, endTime = None,
     completionMessage = None, task_sessionId = None, sessionInfo = None\<rparr>"

definition tracker_B :: tracker where
  "tracker_B = \<lparr>dataFile = Some \<lparr>currentTask = Some task_B, history = []\<rparr>, activeTasks = [],
     initStage = InitFinished\<rparr>"

definition task_S1 :: task where
  "task_S1 = \<lparr>task_id = ''warp_1_5000'', name = ''Alpha Development (09:00 AM)'',
     description = ''Auto-generated task for Alpha'' @ [CHR 0x0A] @
       ''Working directory: ~/projects/alpha'',
     startTime = 5000, progress = 0, updates = [], status = InProgress, endTime = None,
     completionMessage = None, task_sessionId = Some ''warp_1'',
     sessionInfo = Some \<lparr>info_windowId = 1, info_projectName = ''Alpha'',
       info_workingDir = ''~/projects/alpha'', info_title = ''zsh - ~/projects/alpha''\<rparr>\<rparr>"

definition tracker_B_S1 :: tracker where
  "tracker_B_S1 = \<lparr>dataFile = Some \<lparr>currentTask = Some task_B, history = []\<rparr>,
     activeTasks = [(''warp_1'', task_S1)], initStage = InitFinished\<rparr>"

definition tracker_S1_current :: tracker where
  "tracker_S1_current = \<lparr>dataFile = Some \<lparr>currentTask = Some task_S1, history = []\<rparr>,
     activeTasks = [(''warp_1'', task_S1)], initStage = InitFinished\<rparr>"

definition task_S2 :: task where
  "task_S2 = \<lparr>task_id = ''warp_2_5500'', name = ''Beta Development (09:05 AM)'',
     description = ''Auto-generated task for Beta'' @ [CHR 0x0A] @
       ''Working directory: ~/projects/beta'',
     startTime = 5500, progress = 0, updates = [], status = InProgress, endTime = None,
     completionMessage = None, task_sessionId = Some ''warp_2'',
     sessionInfo = Some \<lparr>info_windowId = 2, info_projectName = ''Beta'',
       info_workingDir = ''~/projects/beta'', info_title = ''zsh - ~/projects/beta''\<rparr>\<rparr>"

text \<open>
  Calls after which the current task is also an entry of the history: two sessions get
  their tasks, the retirement of the first fails at its write (the task in the map is
  stopped all the same), the stopped task is made current, stopped by hand within the
  same millisecond, and made current again.
\<close>

definition calls_current_in_history :: "(env \<times> operation) list" where
  "calls_current_in_history =
     [(env_at 5000, CreateTaskForSession session_1),
      (env_at 5500, CreateTaskForSession session_2),
      (\<lparr>now = 7000, write_ok = False\<rparr>, HandleClosedSession ''warp_1''),
      (env_at 7000, SetCurrentTaskFromSession ''warp_1''),
      (env_at 7000, StopTask),
      (env_at 7000, SetCurrentTaskFromSession ''warp_1'')]"

text \<open>
  Calls with no failure after which the history holds a retired record of the current
  task: the first session's task is made current, stopped by hand, and made current
  again from the map.
\<close>

definition calls_current_id_in_history :: "(env \<times> operation) list" where
  "calls_current_id_in_history =
     [(env_at 5000, CreateTaskForSession session_1),
      (env_at 5500, CreateTaskForSession session_2),
      (env_at 6000, SetCurrentTaskFromSession ''warp_1''),
      (env_at 6500, StopTask),
      (env_at 7000, SetCurrentTaskFromSession ''warp_1'')]"

definition calls_between :: "(env \<times> operation) list" where
  "calls_between =
     [(env_at 6000, UpdateSessionTaskProgress ''warp_1'' 40 ''wip''),
      (env_at 7000, StartTask ''A'' ''''),
      (env_at 7500, CreateTaskForSession session_2),
      (env_at 8000, HandleClosedSession ''warp_2'')]"

subsection \<open>Facts about the containers\<close>

lemma set_fold_Set_add: "set (fold Set_add xs acc) = set xs \<union> set acc"
  by (induction xs arbitrary: acc) (auto simp: Set_add_def)

lemma set_new_Set: "set (new_Set xs) = set xs"
  by (simp add: new_Set_def set_fold_Set_add)

lemma distinct_fold_Set_add: "distinct acc \<Longrightarrow> distinct (fold Set_add xs acc)"
  by (induction xs arbitrary: acc) (auto simp: Set_add_def)

lemma distinct_new_Set: "distinct (new_Set xs)"
  by (simp add: new_Set_def distinct_fold_Set_add)

lemma keys_fold_update:
  "Map_keys (fold (\<lambda>s m. AList.update (sessionId s) s m) cs m) = sessionId ` set cs \<union> Map_keys m"
  by (induction cs arbitrary: m) (auto simp: Map_keys_def dom_update)

lemma keys_fold_delete:
  "Map_keys (fold (\<lambda>sid m. AList.delete sid m) ks m) = Map_keys m - set ks"
  by (induction ks arbitrary: m) (auto simp: Map_keys_def AList.delete_eq)

lemma card_diff_parts:
  assumes "finite A" "finite B"
  shows "card (B - A) + card (A - B) + card (A \<inter> B) = card (A \<union> B)"
proof -
  have "A \<union> B = (B - A) \<union> A" by blast
  moreover have "(B - A) \<inter> A = {}" by blast
  ultimately have 1: "card (A \<union> B) = card (B - A) + card A"
    using assms by (metis card_Un_disjoint finite_Diff)
  have "A = (A - B) \<union> (A \<inter> B)" by blast
  moreover have "(A - B) \<inter> (A \<inter> B) = {}" by blast
  ultimately have 2: "card A = card (A - B) + card (A \<inter> B)"
    using assms by (metis card_Un_disjoint finite_Diff finite_Int)
  from 1 2 show ?thesis by simp
qed

subsection \<open>What one poll does\<close>

lemma detect_lastKnown:
  "lastKnownSessions (snd (detectSessionChanges p r)) = new_Set (map sessionId (getWarpSessions p))"
  by (simp add: detectSessionChanges_def Let_def)

lemma detect_new_ids:
  "sessionId ` set (newSessions (fst (detectSessionChanges p r)))
     = sessionId ` set (getWarpSessions p) - set (lastKnownSessions r)"
  by (auto simp: detectSessionChanges_def Let_def Set_has_def)

lemma detect_closed_ids:
  "set (closedSessions (fst (detectSessionChanges p r)))
     = set (lastKnownSessions r) - sessionId ` set (getWarpSessions p)"
  by (auto simp: detectSessionChanges_def Let_def Set_has_def set_new_Set)

lemma detect_closed_distinct:
  "distinct (lastKnownSessions r) \<Longrightarrow> distinct (closedSessions (fst (detectSessionChanges p r)))"
  by (simp add: detectSessionChanges_def Let_def)

lemma detect_active_keys:
  "Map_keys (activeSessions (snd (detectSessionChanges p r)))
     = (sessionId ` set (getWarpSessions p) \<union> Map_keys (activeSessions r))
       - (set (lastKnownSessions r) - sessionId ` set (getWarpSessions p))"
  by (simp add: detectSessionChanges_def Let_def keys_fold_delete keys_fold_update
      Set_has_def set_new_Set set_diff_eq)

lemma detect_invariant:
  assumes "Map_keys (activeSessions r) = set (lastKnownSessions r)"
  shows "Map_keys (activeSessions (snd (detectSessionChanges p r)))
           = sessionId ` set (getWarpSessions p)"
  using assms by (auto simp: detect_active_keys)

lemma poll_sequence_snoc:
  "poll_sequence (ps @ [p]) r = snd (detectSessionChanges p (poll_sequence ps r))"
  by (induction ps arbitrary: r) simp_all

lemma poll_sequence_keys:
  "Map_keys (activeSessions r) = set (lastKnownSessions r) \<Longrightarrow>
   Map_keys (activeSessions (poll_sequence ps r)) = set (lastKnownSessions (poll_sequence ps r))"
proof (induction ps rule: rev_induct)
  case Nil
  then show ?case by simp
next
  case (snoc p ps)
  then show ?case
    by (simp add: poll_sequence_snoc detect_invariant detect_lastKnown set_new_Set)
qed

subsection \<open>The data file and the display\<close>

lemma new_TaskTracker_eq:
  "new_TaskTracker =
     \<lparr>dataFile = Some \<lparr>currentTask = None, history = []\<rparr>, activeTasks = [],
      initStage = InitFinished\<rparr>"
  by (simp add: new_TaskTracker_def initializeData_step_def TaskTracker_constructor_def
      saveData_def)

lemmas eval_defs = env_at_def task_B_def tracker_B_def task_S1_def tracker_B_S1_def
  tracker_S1_current_def new_TaskTracker_eq session_1_def session_2_def loadData_def
  saveData_def outcome_def after_def printed_def displayTask_def createProgressBar_def
  Let_def toString_nat.simps digit_char_def

lemma loadData_dataFile [simp]: "loadData (s\<lparr>dataFile := Some d\<rparr>) = d"
  by (simp add: loadData_def)

lemma loadData_activeTasks [simp]: "loadData (s\<lparr>activeTasks := m\<rparr>) = loadData s"
  by (simp add: loadData_def)

lemma createProgressBar_throws:
  "createProgressBar p 30 = Inl InvalidCount \<longleftrightarrow> p < - 1 \<or> 101 < p"
proof -
  have "(p * 30 + 50) div 100 < 0 \<longleftrightarrow> p * 30 + 50 < 0"
    by (simp add: pos_imp_zdiv_neg_iff)
  also have "\<dots> \<longleftrightarrow> p < - 1" by linarith
  finally have low: "(p * 30 + 50) div 100 < 0 \<longleftrightarrow> p < - 1" .
  have "(p * 30 + 50 - 31 * 100) div 100 = (p * 30 + 50) div 100 - 31"
    using div_mult_self2 [of 100 "p * 30 + 50" "- 31"] by simp
  then have "30 - (p * 30 + 50) div 100 < 0 \<longleftrightarrow> 0 \<le> (p * 30 + 50 - 31 * 100) div 100"
    by linarith
  also have "\<dots> \<longleftrightarrow> 0 \<le> p * 30 + 50 - 31 * 100"
    by (simp add: pos_imp_zdiv_nonneg_iff)
  also have "\<dots> \<longleftrightarrow> 101 < p" by linarith
  finally have high: "30 - (p * 30 + 50) div 100 < 0 \<longleftrightarrow> 101 < p" .
  from low high show ?thesis by (simp add: createProgressBar_def Let_def)
qed

lemma displayTask_ok:
  assumes "0 \<le> progress t" "progress t \<le> 100"
  shows "displayTask t detailed = Inr [DisplayTask t detailed]"
proof -
  from assms have "createProgressBar (progress t) 30 \<noteq> Inl InvalidCount"
    by (simp add: createProgressBar_throws)
  then obtain bar where "createProgressBar (progress t) 30 = Inr bar"
    by (auto simp: createProgressBar_def Let_def split: if_splits)
  then show ?thesis by (simp add: displayTask_def)
qed

lemma displayTask_throws:
  "displayTask t detailed = Inl InvalidCount \<longleftrightarrow> progress t < - 1 \<or> 101 < progress t"
  using createProgressBar_throws [of "progress t"]
  by (auto simp: displayTask_def split: sum.splits)

text \<open>The trackers of the concrete evaluations are reached from the first run.\<close>

lemma tracker_B_reached:
  "after (startTask (env_at 1000) ''B'' '''' new_TaskTracker) = tracker_B"
  by (simp add: startTask_def eval_defs)

lemma tracker_B_S1_reached:
  "snd (createTaskForSession (env_at 5000) session_1 tracker_B) = tracker_B_S1"
  by (simp add: createTaskForSession_def eval_defs)

lemma tracker_S1_current_reached:
  "after (setCurrentTaskFromSession (env_at 6000) ''warp_1'' tracker_B_S1) = tracker_S1_current"
  by (simp add: setCurrentTaskFromSession_def eval_defs)

subsection \<open>The manual operations, branch by branch\<close>

lemma startTask_conflict_state:
  "currentTask (loadData s) = Some b \<Longrightarrow> after (startTask e n d s) = s"
  by (simp add: startTask_def after_def split: sum.split)

lemma startTask_conflict:
  "currentTask (loadData s) = Some b \<Longrightarrow> 0 \<le> progress b \<Longrightarrow> progress b \<le> 100 \<Longrightarrow>
   startTask e n d s =
     (Inr (),
      [ConsoleLog ''A task is already in progress:'', DisplayTask b False,
       ConsoleLog ''Please complete or stop the current task first.''],
      s)"
  by (simp add: startTask_def displayTask_ok)

lemma startTask_fresh:
  "currentTask (loadData s) = None \<Longrightarrow> write_ok e \<Longrightarrow>
   outcome (startTask e n d s) = Inr () \<and>
   loadData (after (startTask e n d s)) =
     (loadData s)\<lparr>currentTask := Some \<lparr>task_id = toString_nat (now e), name = n,
         description = d, startTime = now e, progress = 0, updates = [],
         status = InProgress, endTime = None, completionMessage = None,
         task_sessionId = None, sessionInfo = None\<rparr>\<rparr>"
  by (simp add: startTask_def saveData_def outcome_def after_def Let_def displayTask_ok)

lemma startTask_write_failed:
  "currentTask (loadData s) = None \<Longrightarrow> \<not> write_ok e \<Longrightarrow>
   startTask e n d s = (Inl WriteFailed, [], s)"
  by (simp add: startTask_def saveData_def Let_def)

lemma startTask_resolved_write_ok:
  "currentTask (loadData s) = None \<Longrightarrow> outcome (startTask e n d s) = Inr () \<Longrightarrow> write_ok e"
  by (cases "write_ok e") (simp_all add: startTask_write_failed outcome_def)

lemma updateProgress_none:
  "currentTask (loadData s) = None \<Longrightarrow>
   updateProgress e p m s =
     (Inr (),
      [ConsoleLog ''No active task found. Start a task first with: warp-tracker start Task name''],
      s)"
  by (simp add: updateProgress_def)

lemma updateProgress_range:
  "currentTask (loadData s) = Some t \<Longrightarrow> p < 0 \<or> p > 100 \<Longrightarrow>
   updateProgress e p m s =
     (Inr (), [ConsoleLog ''Progress percentage must be between 0 and 100''], s)"
  by (simp add: updateProgress_def)

lemma updateProgress_ok:
  "currentTask (loadData s) = Some t \<Longrightarrow> 0 \<le> p \<Longrightarrow> p \<le> 100 \<Longrightarrow> write_ok e \<Longrightarrow>
   outcome (updateProgress e p m s) = Inr () \<and>
   loadData (after (updateProgress e p m s)) =
     (loadData s)\<lparr>currentTask := Some (t\<lparr>progress := p,
        updates := updates t @ [\<lparr>upd_timestamp = now e, upd_progress = p, upd_message = m\<rparr>]\<rparr>)\<rparr>"
  by (simp add: updateProgress_def saveData_def outcome_def after_def Let_def displayTask_ok)

lemma updateProgress_write_failed:
  "currentTask (loadData s) = Some t \<Longrightarrow> 0 \<le> p \<Longrightarrow> p \<le> 100 \<Longrightarrow> \<not> write_ok e \<Longrightarrow>
   updateProgress e p m s = (Inl WriteFailed, [], s)"
  by (simp add: updateProgress_def saveData_def Let_def)

lemma updateProgress_resolved_write_ok:
  "currentTask (loadData s) = Some t \<Longrightarrow> 0 \<le> p \<Longrightarrow> p \<le> 100 \<Longrightarrow>
   outcome (updateProgress e p m s) = Inr () \<Longrightarrow> write_ok e"
  by (cases "write_ok e") (simp_all add: updateProgress_write_failed outcome_def)

lemma completeTask_none:
  "currentTask (loadData s) = None \<Longrightarrow>
   completeTask e m s = (Inr (), [ConsoleLog ''No active task to complete''], s)"
  by (simp add: completeTask_def)

lemma completeTask_ok:
  "currentTask (loadData s) = Some t \<Longrightarrow> write_ok e \<Longrightarrow>
   outcome (completeTask e m s) = Inr () \<and>
   loadData (after (completeTask e m s)) =
     \<lparr>currentTask = None,
      history = t\<lparr>endTime := Some (now e), status := Completed, progress := 100,
                  completionMessage := (if m \<noteq> [] then Some m else completionMessage t)\<rparr>
                # history (loadData s)\<rparr>"
  by (simp add: completeTask_def saveData_def outcome_def after_def Let_def displayTask_ok)

lemma completeTask_write_failed:
  "currentTask (loadData s) = Some t \<Longrightarrow> \<not> write_ok e \<Longrightarrow>
   completeTask e m s = (Inl WriteFailed, [], s)"
  by (simp add: completeTask_def saveData_def Let_def)

lemma completeTask_resolved_write_ok:
  "currentTask (loadData s) = Some t \<Longrightarrow> outcome (completeTask e m s) = Inr () \<Longrightarrow> write_ok e"
  by (cases "write_ok e") (simp_all add: completeTask_write_failed outcome_def)

lemma stopTask_ok:
  "currentTask (loadData s) = Some t \<Longrightarrow> write_ok e \<Longrightarrow>
   outcome (stopTask e s) = Inr () \<and>
   loadData (after (stopTask e s)) =
     \<lparr>currentTask = None,
      history = t\<lparr>endTime := Some (now e), status := Stopped\<rparr> # history (loadData s)\<rparr>"
  by (simp add: stopTask_def saveData_def outcome_def after_def Let_def)

lemma stopTask_write_failed:
  "currentTask (loadData s) = Some t \<Longrightarrow> \<not> write_ok e \<Longrightarrow>
   stopTask e s = (Inl WriteFailed, [], s)"
  by (simp add: stopTask_def saveData_def Let_def)

lemma stopTask_resolved_write_ok:
  "currentTask (loadData s) = Some t \<Longrightarrow> outcome (stopTask e s) = Inr () \<Longrightarrow> write_ok e"
  by (cases "write_ok e") (simp_all add: stopTask_write_failed outcome_def)

subsection \<open>The session-bound operations, branch by branch\<close>

lemma setCurrent_unbound:
  "map_of (activeTasks s) sid = None \<Longrightarrow>
   setCurrentTaskFromSession e sid s = (Inl (NoTaskForSession sid), [], s)"
  by (simp add: setCurrentTaskFromSession_def)

lemma setCurrent_ok:
  "map_of (activeTasks s) sid = Some t \<Longrightarrow> write_ok e \<Longrightarrow>
   setCurrentTaskFromSession e sid s =
     (Inr t, [], s\<lparr>dataFile := Some ((loadData s)\<lparr>currentTask := Some t\<rparr>)\<rparr>)"
  by (simp add: setCurrentTaskFromSession_def saveData_def)

lemma setCurrent_write_failed:
  "map_of (activeTasks s) sid = Some t \<Longrightarrow> \<not> write_ok e \<Longrightarrow>
   setCurrentTaskFromSession e sid s = (Inl WriteFailed, [], s)"
  by (simp add: setCurrentTaskFromSession_def saveData_def)

lemma setCurrent_resolved:
  assumes "outcome (setCurrentTaskFromSession e sid s) = Inr b"
  shows "map_of (activeTasks s) sid = Some b \<and> write_ok e"
proof (cases "map_of (activeTasks s) sid")
  case None
  with assms show ?thesis by (simp add: setCurrent_unbound outcome_def)
next
  case (Some t)
  with assms show ?thesis
    by (cases "write_ok e") (simp_all add: setCurrent_ok setCurrent_write_failed outcome_def)
qed

lemma createTask_dataFile:
  "dataFile (snd (createTaskForSession e x s)) = dataFile s"
  by (simp add: createTaskForSession_def Let_def split: option.split)

lemma createTask_bound:
  "map_of (activeTasks s) (sessionId x) = Some t \<Longrightarrow>
   createTaskForSession e x s = (Some t, s)"
  by (simp add: createTaskForSession_def)

lemma createTask_binds:
  "\<exists>t. fst (createTaskForSession e x s) = Some t
      \<and> map_of (activeTasks (snd (createTaskForSession e x s))) (sessionId x) = Some t"
  by (cases "map_of (activeTasks s) (sessionId x)")
     (simp_all add: createTaskForSession_def Let_def update_conv')

lemma handleClosed_ok:
  "map_of (activeTasks s) sid = Some t \<Longrightarrow> write_ok e \<Longrightarrow>
   history (loadData (after (handleClosedSession e sid s))) =
     t\<lparr>endTime := Some (now e), status := Stopped\<rparr> # history (loadData s)
   \<and> currentTask (loadData (after (handleClosedSession e sid s))) =
     (case currentTask (loadData s) of
        None \<Rightarrow> None
      | Some cur \<Rightarrow> if task_sessionId cur = Some sid then None else Some cur)
   \<and> map_of (activeTasks (after (handleClosedSession e sid s))) sid = None"
  by (simp add: handleClosedSession_def saveData_def after_def Let_def delete_conv'
      split: option.split)

lemma updateSession_resolved:
  assumes "outcome (updateSessionTaskProgress e sid p m s) = Inr u"
  shows "map_of (activeTasks (after (updateSessionTaskProgress e sid p m s))) sid = Some u
       \<and> (case currentTask (loadData s) of
            None \<Rightarrow> dataFile (after (updateSessionTaskProgress e sid p m s)) = dataFile s
          | Some cur \<Rightarrow>
              if task_sessionId cur = Some sid
              then loadData (after (updateSessionTaskProgress e sid p m s))
                     = (loadData s)\<lparr>currentTask := Some u\<rparr>
              else dataFile (after (updateSessionTaskProgress e sid p m s)) = dataFile s)"
  using assms
  by (auto simp: updateSessionTaskProgress_def saveData_def after_def outcome_def Let_def
      update_conv' split: option.splits if_splits)

subsection \<open>A session binding survives every call but its own retirement\<close>

lemma activeTasks_startTask: "activeTasks (after (startTask e n d s)) = activeTasks s"
  by (simp add: startTask_def saveData_def after_def Let_def split: option.split sum.split)

lemma activeTasks_updateProgress: "activeTasks (after (updateProgress e p m s)) = activeTasks s"
  by (simp add: updateProgress_def saveData_def after_def Let_def split: option.split sum.split)

lemma activeTasks_completeTask: "activeTasks (after (completeTask e m s)) = activeTasks s"
  by (simp add: completeTask_def saveData_def after_def Let_def split: option.split sum.split)

lemma activeTasks_stopTask: "activeTasks (after (stopTask e s)) = activeTasks s"
  by (simp add: stopTask_def saveData_def after_def Let_def split: option.split)

lemma activeTasks_setCurrent:
  "activeTasks (after (setCurrentTaskFromSession e sid s)) = activeTasks s"
  by (simp add: setCurrentTaskFromSession_def saveData_def after_def Let_def split: option.split)

lemma binding_createTask:
  assumes "map_of (activeTasks s) sid = Some t"
  shows "map_of (activeTasks (snd (createTaskForSession e x s))) sid = Some t"
proof (cases "map_of (activeTasks s) (sessionId x)")
  case None
  with assms have "sessionId x \<noteq> sid" by auto
  with None assms show ?thesis
    by (simp add: createTaskForSession_def Let_def update_conv')
next
  case (Some u)
  with assms show ?thesis by (simp add: createTask_bound)
qed

lemma binding_handleClosed:
  assumes "sid' \<noteq> sid" "map_of (activeTasks s) sid = Some t"
  shows "map_of (activeTasks (after (handleClosedSession e sid' s))) sid = Some t"
  using assms
  by (simp add: handleClosedSession_def saveData_def after_def Let_def update_conv' delete_conv'
      split: option.split)

lemma binding_updateSession:
  assumes "map_of (activeTasks s) sid = Some t"
  shows "\<exists>t'. map_of (activeTasks (after (updateSessionTaskProgress e sid' p m s))) sid = Some t'
            \<and> task_id t' = task_id t"
  using assms
  by (auto simp: updateSessionTaskProgress_def saveData_def after_def Let_def update_conv'
      split: option.split)

lemma run_op_keeps_binding:
  assumes "c \<noteq> HandleClosedSession sid" "map_of (activeTasks s) sid = Some t"
  shows "\<exists>t'. map_of (activeTasks (run_op e c s)) sid = Some t' \<and> task_id t' = task_id t"
proof (cases c)
  case (HandleClosedSession sid')
  with assms have "sid' \<noteq> sid" by simp
  with assms HandleClosedSession show ?thesis by (simp add: binding_handleClosed)
next
  case (UpdateSessionTaskProgress sid' p m)
  with assms binding_updateSession [of s sid t e sid' p m] show ?thesis by simp
qed (use assms in \<open>simp_all add: activeTasks_startTask activeTasks_updateProgress
      activeTasks_completeTask activeTasks_stopTask activeTasks_setCurrent binding_createTask\<close>)

lemma run_ops_keeps_binding:
  assumes "\<forall>(e, c) \<in> set cs. c \<noteq> HandleClosedSession sid"
    and "map_of (activeTasks s) sid = Some t"
  shows "\<exists>t'. map_of (activeTasks (run_ops cs s)) sid = Some t' \<and> task_id t' = task_id t"
  using assms
proof (induction cs arbitrary: s t)
  case Nil
  then show ?case by simp
next
  case (Cons ec cs)
  obtain e c where ec: "ec = (e, c)" by (cases ec)
  with Cons.prems have c: "c \<noteq> HandleClosedSession sid"
    and rest: "\<forall>(e, c) \<in> set cs. c \<noteq> HandleClosedSession sid" by auto
  from run_op_keeps_binding [OF c Cons.prems(2), of e]
  obtain u where u: "map_of (activeTasks (run_op e c s)) sid = Some u" "task_id u = task_id t"
    by blast
  from Cons.IH [OF rest u(1)] u(2) ec show ?case by auto
qed

subsection \<open>No operation touches the stage of initializeData\<close>

lemma initStage_startTask: "initStage (after (startTask e n d s)) = initStage s"
  by (simp add: startTask_def saveData_def after_def Let_def split: option.split sum.split)

lemma initStage_updateProgress: "initStage (after (updateProgress e p m s)) = initStage s"
  by (simp add: updateProgress_def saveData_def after_def Let_def split: option.split sum.split)

lemma initStage_completeTask: "initStage (after (completeTask e m s)) = initStage s"
  by (simp add: completeTask_def saveData_def after_def Let_def split: option.split sum.split)

lemma initStage_stopTask: "initStage (after (stopTask e s)) = initStage s"
  by (simp add: stopTask_def saveData_def after_def Let_def split: option.split)

lemma initStage_setCurrent:
  "initStage (after (setCurrentTaskFromSession e sid s)) = initStage s"
  by (simp add: setCurrentTaskFromSession_def saveData_def after_def Let_def split: option.split)

lemma initStage_handleClosed: "initStage (after (handleClosedSession e sid s)) = initStage s"
  by (simp add: handleClosedSession_def saveData_def after_def Let_def split: option.split)

lemma initStage_updateSession:
  "initStage (after (updateSessionTaskProgress e sid p m s)) = initStage s"
  by (simp add: updateSessionTaskProgress_def saveData_def after_def Let_def
      split: option.split)

lemma initStage_createTask: "initStage (snd (createTaskForSession e x s)) = initStage s"
  by (simp add: createTaskForSession_def Let_def split: option.split)

text \<open>Once finished, \<open>initializeData\<close> does nothing more.\<close>

lemma initializeData_step_finished:
  "initStage s = InitFinished \<Longrightarrow> initializeData_step e s = s"
  by (simp add: initializeData_step_def)

section \<open>Claims\<close>

subsection \<open>C1: a failed probe\<close>

text \<open>
  C1 (as stated): if the probe fails during a poll, the poll returns an empty diff and the
  snapshot of known session ids is the same after the poll as before.

  The code does not do this. \<open>getWarpSessions\<close> turns a failed probe into the empty
  list, and \<open>detectSessionChanges\<close> cannot tell it from a probe that found no window.
  After one successful poll that saw the session \<open>warp_1\<close>, a poll whose probe fails
  reports \<open>warp_1\<close> as closed and empties the snapshot.
\<close>

theorem probe_failure_reports_session_closed:
  "lastKnownSessions (poll_sequence [ProbeOk [session_1]] new_WarpSessionManager) = [''warp_1'']
   \<and> closedSessions (fst (detectSessionChanges ProbeFailed
         (poll_sequence [ProbeOk [session_1]] new_WarpSessionManager))) = [''warp_1'']
   \<and> lastKnownSessions (snd (detectSessionChanges ProbeFailed
         (poll_sequence [ProbeOk [session_1]] new_WarpSessionManager))) = []"
  by (simp add: detectSessionChanges_def new_WarpSessionManager_def session_1_def
      new_Set_def Set_add_def Set_has_def Let_def)

text \<open>
  C1 (amended): if the probe fails during a poll, the poll behaves as for an empty
  inventory: it reports no appeared session, reports every id of the previous snapshot as
  disappeared, removes those ids from the active-sessions map and leaves the snapshot
  empty.
\<close>

theorem probe_failure_is_empty_inventory:
  "detectSessionChanges ProbeFailed r =
     (\<lparr>newSessions = [], closedSessions = lastKnownSessions r, allSessions = []\<rparr>,
      \<lparr>activeSessions =
         fold (\<lambda>sid m. AList.delete sid m) (lastKnownSessions r) (activeSessions r),
       lastKnownSessions = []\<rparr>)"
  by (simp add: detectSessionChanges_def new_Set_def Set_has_def Let_def)

subsection \<open>C2: what is written to the data file\<close>

text \<open>
  C2 (as stated): every lifecycle operation that mutates task state and reports success,
  \<open>createTaskForSession\<close> included, has written the mutation to the data file when it
  returns.

  \<open>createTaskForSession\<close> never writes the data file: on a first-run tracker it returns
  a new task with id \<open>warp_1_5000\<close> and the data file still holds no task. Nor does
  \<open>updateSessionTaskProgress\<close> write when the task it updates is not the current one:
  it returns the task with progress 50 and the data file is still empty. And a
  \<open>startTask\<close> called on a first run while the write of \<open>initializeData\<close> is pending
  resolves, after which that write lands and the data file holds no task.
\<close>

theorem createTaskForSession_not_persisted:
  "map_option task_id (fst (createTaskForSession (env_at 5000) session_1 new_TaskTracker))
     = Some ''warp_1_5000''
   \<and> loadData (snd (createTaskForSession (env_at 5000) session_1 new_TaskTracker))
     = \<lparr>currentTask = None, history = []\<rparr>
   \<and> map_sum (\<lambda>err. err) progress
        (outcome (updateSessionTaskProgress (env_at 6000) ''warp_1'' 50 ''half''
           (snd (createTaskForSession (env_at 5000) session_1 new_TaskTracker)))) = Inr 50
   \<and> loadData (after (updateSessionTaskProgress (env_at 6000) ''warp_1'' 50 ''half''
         (snd (createTaskForSession (env_at 5000) session_1 new_TaskTracker))))
     = \<lparr>currentTask = None, history = []\<rparr>
   \<and> initStage (initializeData_step (env_at 900) (TaskTracker_constructor None))
     = InitWritePending
   \<and> outcome (startTask (env_at 1000) ''B'' ''''
         (initializeData_step (env_at 900) (TaskTracker_constructor None))) = Inr ()
   \<and> loadData (initializeData_step (env_at 1100)
         (after (startTask (env_at 1000) ''B'' ''''
            (initializeData_step (env_at 900) (TaskTracker_constructor None)))))
     = \<lparr>currentTask = None, history = []\<rparr>"
  by (simp add: createTaskForSession_def updateSessionTaskProgress_def startTask_def
      initializeData_step_def TaskTracker_constructor_def eval_defs)

text \<open>
  C2 (amended): on a tracker whose \<open>initializeData\<close> has finished, the operations that
  write the data file have written it when they return successfully. Whenever
  \<open>startTask\<close>, \<open>updateProgress\<close>, \<open>completeTask\<close>, \<open>stopTask\<close> or
  \<open>setCurrentTaskFromSession\<close> mutates task state and resolves, loading the data file
  afterwards gives the mutated data. Whenever \<open>handleClosedSession\<close> finds a bound task
  and its write succeeds, the data file afterwards has the stopped task at the head of
  the history and an empty current slot if the current task was bound to that session
  (the current task otherwise unchanged), and the session is no longer bound.
  \<open>updateSessionTaskProgress\<close> writes the updated task only when the current task of
  the data file is bound to the same session, and otherwise leaves the data file as it
  was. \<open>createTaskForSession\<close> never writes: the new task lives in \<open>activeTasks\<close>
  only.
\<close>

theorem store_written_before_success:
  "(initStage s = InitFinished \<and> currentTask (loadData s) = None
        \<and> outcome (startTask e n d s) = Inr () \<longrightarrow>
      loadData (after (startTask e n d s)) =
        (loadData s)\<lparr>currentTask := Some \<lparr>task_id = toString_nat (now e), name = n,
           description = d, startTime = now e, progress = 0, updates = [],
           status = InProgress, endTime = None, completionMessage = None,
           task_sessionId = None, sessionInfo = None\<rparr>\<rparr>
      \<and> initStage (after (startTask e n d s)) = InitFinished)
   \<and> (initStage s = InitFinished \<and> currentTask (loadData s) = Some t \<and> 0 \<le> p \<and> p \<le> 100
        \<and> outcome (updateProgress e p m s) = Inr () \<longrightarrow>
      loadData (after (updateProgress e p m s)) =
        (loadData s)\<lparr>currentTask := Some (t\<lparr>progress := p,
           updates := updates t @
             [\<lparr>upd_timestamp = now e, upd_progress = p, upd_message = m\<rparr>]\<rparr>)\<rparr>
      \<and> initStage (after (updateProgress e p m s)) = InitFinished)
   \<and> (initStage s = InitFinished \<and> currentTask (loadData s) = Some t
        \<and> outcome (completeTask e m s) = Inr () \<longrightarrow>
      loadData (after (completeTask e m s)) =
        \<lparr>currentTask = None,
         history = t\<lparr>endTime := Some (now e), status := Completed, progress := 100,
             completionMessage := (if m \<noteq> [] then Some m else completionMessage t)\<rparr>
           # history (loadData s)\<rparr>
      \<and> initStage (after (completeTask e m s)) = InitFinished)
   \<and> (initStage s = InitFinished \<and> currentTask (loadData s) = Some t
        \<and> outcome (stopTask e s) = Inr () \<longrightarrow>
      loadData (after (stopTask e s)) =
        \<lparr>currentTask = None,
         history = t\<lparr>endTime := Some (now e), status := Stopped\<rparr> # history (loadData s)\<rparr>
      \<and> initStage (after (stopTask e s)) = InitFinished)
   \<and> (initStage s = InitFinished \<and> outcome (setCurrentTaskFromSession e sid s) = Inr b \<longrightarrow>
      loadData (after (setCurrentTaskFromSession e sid s)) = (loadData s)\<lparr>currentTask := Some b\<rparr>
      \<and> initStage (after (setCurrentTaskFromSession e sid s)) = InitFinished)
   \<and> (initStage s = InitFinished \<and> map_of (activeTasks s) sid = Some b \<and> write_ok e \<longrightarrow>
      loadData (after (handleClosedSession e sid s)) =
        \<lparr>currentTask =
           (case currentTask (loadData s) of
              None \<Rightarrow> None
            | Some cur \<Rightarrow> if task_sessionId cur = Some sid then None else Some cur),
         history = b\<lparr>endTime := Some (now e), status := Stopped\<rparr> # history (loadData s)\<rparr>
      \<and> map_of (activeTasks (after (handleClosedSession e sid s))) sid = None
      \<and> initStage (after (handleClosedSession e sid s)) = InitFinished)
   \<and> (initStage s = InitFinished
        \<and> outcome (updateSessionTaskProgress e sid p m s) = Inr u \<longrightarrow>
      (case currentTask (loadData s) of
         None \<Rightarrow> dataFile (after (updateSessionTaskProgress e sid p m s)) = dataFile s
       | Some cur \<Rightarrow>
           if task_sessionId cur = Some sid
           then loadData (after (updateSessionTaskProgress e sid p m s))
                  = (loadData s)\<lparr>currentTask := Some u\<rparr>
           else dataFile (after (updateSessionTaskProgress e sid p m s)) = dataFile s)
      \<and> initStage (after (updateSessionTaskProgress e sid p m s)) = InitFinished)
   \<and> dataFile (snd (createTaskForSession e x s)) = dataFile s
   \<and> initStage (snd (createTaskForSession e x s)) = initStage s"
proof -
  have start: "initStage s = InitFinished \<and> currentTask (loadData s) = None
        \<and> outcome (startTask e n d s) = Inr () \<longrightarrow>
      loadData (after (startTask e n d s)) =
        (loadData s)\<lparr>currentTask := Some \<lparr>task_id = toString_nat (now e), name = n,
           description = d, startTime = now e, progress = 0, updates = [],
           status = InProgress, endTime = None, completionMessage = None,
           task_sessionId = None, sessionInfo = None\<rparr>\<rparr>
      \<and> initStage (after (startTask e n d s)) = InitFinished"
    using startTask_resolved_write_ok [of s e n d] startTask_fresh [of s e n d]
      initStage_startTask [of e n d s] by auto
  have update: "initStage s = InitFinished \<and> currentTask (loadData s) = Some t
        \<and> 0 \<le> p \<and> p \<le> 100 \<and> outcome (updateProgress e p m s) = Inr () \<longrightarrow>
      loadData (after (updateProgress e p m s)) =
        (loadData s)\<lparr>currentTask := Some (t\<lparr>progress := p,
           updates := updates t @
             [\<lparr>upd_timestamp = now e, upd_progress = p, upd_message = m\<rparr>]\<rparr>)\<rparr>
      \<and> initStage (after (updateProgress e p m s)) = InitFinished"
    using updateProgress_resolved_write_ok [of s t p e m] updateProgress_ok [of s t p e m]
      initStage_updateProgress [of e p m s] by auto
  have complete: "initStage s = InitFinished \<and> currentTask (loadData s) = Some t
        \<and> outcome (completeTask e m s) = Inr () \<longrightarrow>
      loadData (after (completeTask e m s)) =
        \<lparr>currentTask = None,
         history = t\<lparr>endTime := Some (now e), status := Completed, progress := 100,
             completionMessage := (if m \<noteq> [] then Some m else completionMessage t)\<rparr>
           # history (loadData s)\<rparr>
      \<and> initStage (after (completeTask e m s)) = InitFinished"
    using completeTask_resolved_write_ok [of s t e m] completeTask_ok [of s t e m]
      initStage_completeTask [of e m s] by auto
  have stop: "initStage s = InitFinished \<and> currentTask (loadData s) = Some t
        \<and> outcome (stopTask e s) = Inr () \<longrightarrow>
      loadData (after (stopTask e s)) =
        \<lparr>currentTask = None,
         history = t\<lparr>endTime := Some (now e), status := Stopped\<rparr> # history (loadData s)\<rparr>
      \<and> initStage (after (stopTask e s)) = InitFinished"
    using stopTask_resolved_write_ok [of s t e] stopTask_ok [of s t e]
      initStage_stopTask [of e s] by auto
  have switch: "initStage s = InitFinished
        \<and> outcome (setCurrentTaskFromSession e sid s) = Inr b \<longrightarrow>
      loadData (after (setCurrentTaskFromSession e sid s)) = (loadData s)\<lparr>currentTask := Some b\<rparr>
      \<and> initStage (after (setCurrentTaskFromSession e sid s)) = InitFinished"
    using setCurrent_resolved [of e sid s b] setCurrent_ok [of s sid b e]
      initStage_setCurrent [of e sid s]
    by (auto simp: after_def)
  have retire: "initStage s = InitFinished \<and> map_of (activeTasks s) sid = Some b
        \<and> write_ok e \<longrightarrow>
      loadData (after (handleClosedSession e sid s)) =
        \<lparr>currentTask =
           (case currentTask (loadData s) of
              None \<Rightarrow> None
            | Some cur \<Rightarrow> if task_sessionId cur = Some sid then None else Some cur),
         history = b\<lparr>endTime := Some (now e), status := Stopped\<rparr> # history (loadData s)\<rparr>
      \<and> map_of (activeTasks (after (handleClosedSession e sid s))) sid = None
      \<and> initStage (after (handleClosedSession e sid s)) = InitFinished"
    using handleClosed_ok [of s sid b e] initStage_handleClosed [of e sid s]
    by (cases "loadData (after (handleClosedSession e sid s))") auto
  have upd: "initStage s = InitFinished
        \<and> outcome (updateSessionTaskProgress e sid p m s) = Inr u \<longrightarrow>
      (case currentTask (loadData s) of
         None \<Rightarrow> dataFile (after (updateSessionTaskProgress e sid p m s)) = dataFile s
       | Some cur \<Rightarrow>
           if task_sessionId cur = Some sid
           then loadData (after (updateSessionTaskProgress e sid p m s))
                  = (loadData s)\<lparr>currentTask := Some u\<rparr>
           else dataFile (after (updateSessionTaskProgress e sid p m s)) = dataFile s)
      \<and> initStage (after (updateSessionTaskProgress e sid p m s)) = InitFinished"
    using updateSession_resolved [of e sid p m s u] initStage_updateSession [of e sid p m s]
    by auto
  from start update complete stop switch retire upd createTask_dataFile [of e x s]
    initStage_createTask [of e x s]
  show ?thesis by blast
qed

text \<open>
  C2 (amended) at concrete trackers with \<open>initializeData\<close> finished: one successful call
  of each operation, with the content of the data file afterwards. The retirement is
  taken once where the current task belongs to the retired session and once where it
  does not.
\<close>

theorem store_written_before_success_witness:
  "loadData (after (startTask (env_at 1000) ''B'' '''' new_TaskTracker))
     = \<lparr>currentTask = Some task_B, history = []\<rparr>
   \<and> loadData (after (updateProgress (env_at 2000) 40 ''draft done'' tracker_B))
     = \<lparr>currentTask = Some (task_B\<lparr>progress := 40,
          updates := [\<lparr>upd_timestamp = 2000, upd_progress = 40, upd_message = ''draft done''\<rparr>]\<rparr>),
        history = []\<rparr>
   \<and> loadData (after (completeTask (env_at 2000) ''shipped'' tracker_B))
     = \<lparr>currentTask = None,
        history = [task_B\<lparr>endTime := Some 2000, status := Completed, progress := 100,
          completionMessage := Some ''shipped''\<rparr>]\<rparr>
   \<and> loadData (after (stopTask (env_at 2000) tracker_B))
     = \<lparr>currentTask = None, history = [task_B\<lparr>endTime := Some 2000, status := Stopped\<rparr>]\<rparr>
   \<and> loadData (after (setCurrentTaskFromSession (env_at 6000) ''warp_1'' tracker_B_S1))
     = \<lparr>currentTask = Some task_S1, history = []\<rparr>
   \<and> loadData (after (handleClosedSession (env_at 7000) ''warp_1'' tracker_S1_current))
     = \<lparr>currentTask = None,
        history = [task_S1\<lparr>endTime := Some 7000, status := Stopped\<rparr>]\<rparr>
   \<and> map_of (activeTasks (after (handleClosedSession (env_at 7000) ''warp_1''
         tracker_S1_current))) ''warp_1'' = None
   \<and> loadData (after (handleClosedSession (env_at 7000) ''warp_1'' tracker_B_S1))
     = \<lparr>currentTask = Some task_B,
        history = [task_S1\<lparr>endTime := Some 7000, status := Stopped\<rparr>]\<rparr>
   \<and> loadData (after (updateSessionTaskProgress (env_at 7000) ''warp_1'' 50 ''half''
         tracker_S1_current))
     = \<lparr>currentTask = Some (task_S1\<lparr>progress := 50,
          updates := [\<lparr>upd_timestamp = 7000, upd_progress = 50, upd_message = ''half''\<rparr>]\<rparr>),
        history = []\<rparr>
   \<and> dataFile (after (updateSessionTaskProgress (env_at 7000) ''warp_1'' 50 ''half'' tracker_B_S1))
     = dataFile tracker_B_S1
   \<and> dataFile (snd (createTaskForSession (env_at 5000) session_1 tracker_B)) = dataFile tracker_B"
proof -
  have I: "initStage new_TaskTracker = InitFinished" "initStage tracker_B = InitFinished"
    "initStage tracker_B_S1 = InitFinished" "initStage tracker_S1_current = InitFinished"
    by (simp_all add: new_TaskTracker_eq tracker_B_def tracker_B_S1_def tracker_S1_current_def)
  have N: "currentTask (loadData new_TaskTracker) = None"
    and B: "loadData tracker_B = \<lparr>currentTask = Some task_B, history = []\<rparr>"
    and BS: "loadData tracker_B_S1 = \<lparr>currentTask = Some task_B, history = []\<rparr>"
    and SC: "loadData tracker_S1_current = \<lparr>currentTask = Some task_S1, history = []\<rparr>"
    and M: "map_of (activeTasks tracker_B_S1) ''warp_1'' = Some task_S1"
    and MC: "map_of (activeTasks tracker_S1_current) ''warp_1'' = Some task_S1"
    and W: "write_ok (env_at 7000)"
    by (simp_all add: new_TaskTracker_eq tracker_B_def tracker_B_S1_def
        tracker_S1_current_def loadData_def env_at_def)
  have o1: "outcome (startTask (env_at 1000) ''B'' '''' new_TaskTracker) = Inr ()"
    by (simp add: startTask_def eval_defs)
  have o2: "outcome (updateProgress (env_at 2000) 40 ''draft done'' tracker_B) = Inr ()"
    by (simp add: updateProgress_def eval_defs)
  have o3: "outcome (completeTask (env_at 2000) ''shipped'' tracker_B) = Inr ()"
    by (simp add: completeTask_def eval_defs)
  have o4: "outcome (stopTask (env_at 2000) tracker_B) = Inr ()"
    by (simp add: stopTask_def eval_defs)
  have o5: "outcome (setCurrentTaskFromSession (env_at 6000) ''warp_1'' tracker_B_S1) = Inr task_S1"
    by (simp add: setCurrentTaskFromSession_def eval_defs)
  have o7: "outcome (updateSessionTaskProgress (env_at 7000) ''warp_1'' 50 ''half''
         tracker_S1_current) = Inr (task_S1\<lparr>progress := 50,
          updates := [\<lparr>upd_timestamp = 7000, upd_progress = 50, upd_message = ''half''\<rparr>]\<rparr>)"
    by (simp add: updateSessionTaskProgress_def eval_defs)
  have o8: "outcome (updateSessionTaskProgress (env_at 7000) ''warp_1'' 50 ''half''
         tracker_B_S1) = Inr (task_S1\<lparr>progress := 50,
          updates := [\<lparr>upd_timestamp = 7000, upd_progress = 50, upd_message = ''half''\<rparr>]\<rparr>)"
    by (simp add: updateSessionTaskProgress_def eval_defs)
  have c1: "loadData (after (startTask (env_at 1000) ''B'' '''' new_TaskTracker))
     = \<lparr>currentTask = Some task_B, history = []\<rparr>"
    using store_written_before_success
      [where s = new_TaskTracker and e = "env_at 1000" and n = "''B''" and d = "''''"] I N o1
    by (simp add: new_TaskTracker_eq loadData_def env_at_def task_B_def toString_nat.simps
        digit_char_def)
  have c2: "loadData (after (updateProgress (env_at 2000) 40 ''draft done'' tracker_B))
     = \<lparr>currentTask = Some (task_B\<lparr>progress := 40,
          updates := [\<lparr>upd_timestamp = 2000, upd_progress = 40, upd_message = ''draft done''\<rparr>]\<rparr>),
        history = []\<rparr>"
    using store_written_before_success
      [where s = tracker_B and e = "env_at 2000" and p = 40 and m = "''draft done''"
        and t = task_B] I B o2
    by (simp add: env_at_def task_B_def)
  have c3: "loadData (after (completeTask (env_at 2000) ''shipped'' tracker_B))
     = \<lparr>currentTask = None,
        history = [task_B\<lparr>endTime := Some 2000, status := Completed, progress := 100,
          completionMessage := Some ''shipped''\<rparr>]\<rparr>"
    using store_written_before_success
      [where s = tracker_B and e = "env_at 2000" and m = "''shipped''" and t = task_B] I B o3
    by (simp add: env_at_def)
  have c4: "loadData (after (stopTask (env_at 2000) tracker_B))
     = \<lparr>currentTask = None, history = [task_B\<lparr>endTime := Some 2000, status := Stopped\<rparr>]\<rparr>"
    using store_written_before_success
      [where s = tracker_B and e = "env_at 2000" and t = task_B] I B o4
    by (simp add: env_at_def)
  have c5: "loadData (after (setCurrentTaskFromSession (env_at 6000) ''warp_1'' tracker_B_S1))
     = \<lparr>currentTask = Some task_S1, history = []\<rparr>"
    using store_written_before_success
      [where s = tracker_B_S1 and e = "env_at 6000" and sid = "''warp_1''" and b = task_S1]
      I BS o5
    by simp
  have c6: "loadData (after (handleClosedSession (env_at 7000) ''warp_1'' tracker_S1_current))
     = \<lparr>currentTask = None,
        history = [task_S1\<lparr>endTime := Some 7000, status := Stopped\<rparr>]\<rparr>
   \<and> map_of (activeTasks (after (handleClosedSession (env_at 7000) ''warp_1''
         tracker_S1_current))) ''warp_1'' = None"
    using store_written_before_success
      [where s = tracker_S1_current and e = "env_at 7000" and sid = "''warp_1''"
        and b = task_S1] I SC MC W
    by (simp add: env_at_def task_S1_def)
  have c6': "loadData (after (handleClosedSession (env_at 7000) ''warp_1'' tracker_B_S1))
     = \<lparr>currentTask = Some task_B,
        history = [task_S1\<lparr>endTime := Some 7000, status := Stopped\<rparr>]\<rparr>"
    using store_written_before_success
      [where s = tracker_B_S1 and e = "env_at 7000" and sid = "''warp_1''" and b = task_S1]
      I BS M W
    by (simp add: env_at_def task_B_def)
  have c7: "loadData (after (updateSessionTaskProgress (env_at 7000) ''warp_1'' 50 ''half''
         tracker_S1_current))
     = \<lparr>currentTask = Some (task_S1\<lparr>progress := 50,
          updates := [\<lparr>upd_timestamp = 7000, upd_progress = 50, upd_message = ''half''\<rparr>]\<rparr>),
        history = []\<rparr>"
    using store_written_before_success
      [where s = tracker_S1_current and e = "env_at 7000" and sid = "''warp_1''"
        and p = 50 and m = "''half''"] I SC o7
    by (simp add: task_S1_def)
  have c8: "dataFile (after (updateSessionTaskProgress (env_at 7000) ''warp_1'' 50 ''half''
         tracker_B_S1)) = dataFile tracker_B_S1"
    using store_written_before_success
      [where s = tracker_B_S1 and e = "env_at 7000" and sid = "''warp_1''"
        and p = 50 and m = "''half''"] I BS o8
    by (simp add: task_B_def)
  have c9: "dataFile (snd (createTaskForSession (env_at 5000) session_1 tracker_B))
     = dataFile tracker_B"
    using store_written_before_success
      [where s = tracker_B and e = "env_at 5000" and x = session_1] by simp
  from c1 c2 c3 c4 c5 c6 c6' c7 c8 c9 show ?thesis by simp
qed

subsection \<open>C3: starting a task while one is current\<close>

text \<open>
  C3 (as stated): if a current task exists, \<open>startTask\<close> fails with a conflict error
  that carries the existing task, surfaced to the caller as a discriminated error.

  \<open>startTask\<close> raises nothing in that case: it prints a warning and ends with a bare
  \<open>return\<close>. Called while task B is current it resolves with \<open>undefined\<close>, the very
  value it resolves with when it has started a task on a first-run tracker.
\<close>

theorem startTask_conflict_resolves:
  "outcome (startTask (env_at 2000) ''A'' '''' tracker_B) = Inr ()
   \<and> outcome (startTask (env_at 2000) ''A'' '''' new_TaskTracker) = Inr ()"
  by (simp add: startTask_def eval_defs)

text \<open>
  C3 (amended): if a current task exists, \<open>startTask\<close> creates no task and leaves the
  tracker as it was, so the data file still shows the existing task as current. It reports
  the conflict on the console only: for an existing task whose progress is within 0 to
  100 it prints a warning, the box of the existing task and a hint, and resolves normally
  with no value.
\<close>

theorem startTask_conflict_prints_and_returns:
  assumes "currentTask (loadData s) = Some b"
  shows "after (startTask e n d s) = s
       \<and> (0 \<le> progress b \<and> progress b \<le> 100 \<longrightarrow>
            startTask e n d s =
              (Inr (),
               [ConsoleLog ''A task is already in progress:'', DisplayTask b False,
                ConsoleLog ''Please complete or stop the current task first.''],
               s))"
  using assms startTask_conflict_state [of s b e n d] startTask_conflict [of s b e n d]
  by blast

text \<open>C3 (amended) at the tracker whose current task is B.\<close>

theorem startTask_conflict_prints_and_returns_witness:
  "currentTask (loadData tracker_B) = Some task_B
   \<and> startTask (env_at 2000) ''A'' '''' tracker_B =
     (Inr (),
      [ConsoleLog ''A task is already in progress:'', DisplayTask task_B False,
       ConsoleLog ''Please complete or stop the current task first.''],
      tracker_B)"
proof -
  have h: "currentTask (loadData tracker_B) = Some task_B"
    by (simp add: tracker_B_def loadData_def)
  have r: "0 \<le> progress task_B \<and> progress task_B \<le> 100"
    by (simp add: task_B_def)
  from h r startTask_conflict_prints_and_returns [OF h, of "env_at 2000" "''A''" "''''"]
  show ?thesis by simp
qed

subsection \<open>C4: the diff of a poll\<close>

text \<open>
  C4: for two consecutive probe outputs with session-id sets \<open>S1\<close> and \<open>S2\<close>, the
  snapshot after the first poll is \<open>S1\<close>, and the diff of the second poll has
  \<open>appeared = S2 - S1\<close> and \<open>disappeared = S1 - S2\<close> as sets of session ids, so that
  \<open>|appeared| + |disappeared| + |S1 \<inter> S2| = |S1 \<union> S2|\<close>.
\<close>

theorem diff_completeness:
  "(let S1 = sessionId ` set (getWarpSessions p1);
        S2 = sessionId ` set (getWarpSessions p2);
        r1 = snd (detectSessionChanges p1 r);
        diff = fst (detectSessionChanges p2 r1);
        appeared = sessionId ` set (newSessions diff);
        disappeared = set (closedSessions diff)
    in set (lastKnownSessions r1) = S1
     \<and> appeared = S2 - S1
     \<and> disappeared = S1 - S2
     \<and> card appeared + card disappeared + card (S1 \<inter> S2) = card (S1 \<union> S2))"
  unfolding Let_def
  by (simp add: detect_new_ids detect_closed_ids detect_lastKnown set_new_Set card_diff_parts)

subsection \<open>C5: completing the current task\<close>

text \<open>
  C5 (as stated): with a current task, \<open>completeTask\<close> retires it with progress 100,
  status completed and \<open>endTime\<close> set, at index 0 of the history, and clears the current
  slot; with no current task it fails with a not-found error.

  The second half fails: with no current task \<open>completeTask\<close> raises nothing, it prints
  a line and resolves with \<open>undefined\<close>.
\<close>

theorem completeTask_without_task_resolves:
  "outcome (completeTask (env_at 2000) '''' new_TaskTracker) = Inr ()"
  by (simp add: completeTask_def eval_defs)

text \<open>
  C5 (amended): with a current task and a successful write, \<open>completeTask\<close> resolves,
  the retired task has progress 100, status completed and \<open>endTime\<close> set to the time of
  the call, it stands at index 0 of the history in front of the former entries, and the
  current slot is empty. With no current task \<open>completeTask\<close> raises no error: it
  prints a line, resolves normally and leaves the tracker as it was.
\<close>

theorem completeTask_behaviour:
  "(currentTask (loadData s) = Some t \<and> write_ok e \<longrightarrow>
      outcome (completeTask e m s) = Inr () \<and>
      currentTask (loadData (after (completeTask e m s))) = None \<and>
      history (loadData (after (completeTask e m s))) =
        t\<lparr>endTime := Some (now e), status := Completed, progress := 100,
          completionMessage := (if m \<noteq> [] then Some m else completionMessage t)\<rparr>
        # history (loadData s) \<and>
      progress (history (loadData (after (completeTask e m s))) ! 0) = 100 \<and>
      status (history (loadData (after (completeTask e m s))) ! 0) = Completed \<and>
      endTime (history (loadData (after (completeTask e m s))) ! 0) = Some (now e))
   \<and> (currentTask (loadData s) = None \<longrightarrow>
      completeTask e m s = (Inr (), [ConsoleLog ''No active task to complete''], s))"
  by (simp add: completeTask_ok completeTask_none)

text \<open>C5 (amended) at the tracker whose current task is B, and at a first-run tracker.\<close>

theorem completeTask_behaviour_witness:
  "history (loadData (after (completeTask (env_at 2000) ''shipped'' tracker_B))) =
     [task_B\<lparr>endTime := Some 2000, status := Completed, progress := 100,
        completionMessage := Some ''shipped''\<rparr>]
   \<and> currentTask (loadData (after (completeTask (env_at 2000) ''shipped'' tracker_B))) = None
   \<and> completeTask (env_at 2000) ''shipped'' new_TaskTracker =
       (Inr (), [ConsoleLog ''No active task to complete''], new_TaskTracker)"
proof -
  have h1: "currentTask (loadData tracker_B) = Some task_B \<and> write_ok (env_at 2000)"
    by (simp add: tracker_B_def loadData_def env_at_def)
  have h2: "currentTask (loadData new_TaskTracker) = None"
    by (simp add: new_TaskTracker_eq loadData_def)
  from h1 h2 completeTask_behaviour [of tracker_B task_B "env_at 2000" "''shipped''"]
    completeTask_behaviour [of new_TaskTracker task_B "env_at 2000" "''shipped''"]
  show ?thesis by (simp add: tracker_B_def loadData_def env_at_def)
qed

subsection \<open>C6: updating the progress\<close>

text \<open>
  C6 (as stated): \<open>updateProgress\<close> fails with a not-found error when no task is
  current and with a range error when the percentage is outside 0 to 100, and succeeds
  otherwise.

  \<open>updateProgress\<close> raises neither error: for the percentages -1 and 101 with a
  current task, and for 50 with none, it prints a line and resolves with \<open>undefined\<close>.
\<close>

theorem updateProgress_rejected_input_resolves:
  "outcome (updateProgress (env_at 2000) (- 1) '''' tracker_B) = Inr ()
   \<and> outcome (updateProgress (env_at 2000) 101 '''' tracker_B) = Inr ()
   \<and> outcome (updateProgress (env_at 2000) 50 '''' new_TaskTracker) = Inr ()"
  by (simp add: updateProgress_def eval_defs)

text \<open>
  C6 (amended): \<open>updateProgress\<close> raises no error for a missing task or a percentage
  out of range. With no current task, and with a current task and a percentage below 0 or
  above 100 (so for -1 and 101), it prints a line, resolves normally and leaves the
  tracker as it was, so progress and updates of the current task are unchanged. With a
  current task, a percentage from 0 to 100 (so for 0 and 100) and a successful write it
  resolves, the new progress replaces the old whether larger or smaller, and exactly one
  entry with the time, the percentage and the message is appended to the updates.
\<close>

theorem updateProgress_behaviour:
  "(currentTask (loadData s) = None \<longrightarrow>
      updateProgress e p m s =
        (Inr (),
         [ConsoleLog ''No active task found. Start a task first with: warp-tracker start Task name''],
         s))
   \<and> (currentTask (loadData s) = Some t \<and> (p < 0 \<or> 100 < p) \<longrightarrow>
      updateProgress e p m s =
        (Inr (), [ConsoleLog ''Progress percentage must be between 0 and 100''], s))
   \<and> (currentTask (loadData s) = Some t \<and> 0 \<le> p \<and> p \<le> 100 \<and> write_ok e \<longrightarrow>
      outcome (updateProgress e p m s) = Inr () \<and>
      loadData (after (updateProgress e p m s)) =
        (loadData s)\<lparr>currentTask := Some (t\<lparr>progress := p,
           updates := updates t @
             [\<lparr>upd_timestamp = now e, upd_progress = p, upd_message = m\<rparr>]\<rparr>)\<rparr>)"
  using updateProgress_none [of s e p m] updateProgress_range [of s t p e m]
    updateProgress_ok [of s t p e m]
  by blast

text \<open>
  C6 (amended) at the percentages -1, 101, 0 and 100 with task B current, at 50 with no
  current task, and at a decrease from 100 to 40.
\<close>

theorem updateProgress_behaviour_witness:
  "updateProgress (env_at 2000) (- 1) ''x'' tracker_B =
     (Inr (), [ConsoleLog ''Progress percentage must be between 0 and 100''], tracker_B)
   \<and> updateProgress (env_at 2000) 101 ''x'' tracker_B =
     (Inr (), [ConsoleLog ''Progress percentage must be between 0 and 100''], tracker_B)
   \<and> updateProgress (env_at 2000) 50 ''x'' new_TaskTracker =
     (Inr (),
      [ConsoleLog ''No active task found. Start a task first with: warp-tracker start Task name''],
      new_TaskTracker)
   \<and> currentTask (loadData (after (updateProgress (env_at 2000) 0 ''x'' tracker_B))) =
       Some (task_B\<lparr>progress := 0,
         updates := [\<lparr>upd_timestamp = 2000, upd_progress = 0, upd_message = ''x''\<rparr>]\<rparr>)
   \<and> currentTask (loadData (after (updateProgress (env_at 2000) 100 ''x'' tracker_B))) =
       Some (task_B\<lparr>progress := 100,
         updates := [\<lparr>upd_timestamp = 2000, upd_progress = 100, upd_message = ''x''\<rparr>]\<rparr>)
   \<and> currentTask (loadData (after (updateProgress (env_at 3000) 40 ''y''
         (after (updateProgress (env_at 2000) 100 ''x'' tracker_B))))) =
       Some (task_B\<lparr>progress := 40,
         updates := [\<lparr>upd_timestamp = 2000, upd_progress = 100, upd_message = ''x''\<rparr>,
                     \<lparr>upd_timestamp = 3000, upd_progress = 40, upd_message = ''y''\<rparr>]\<rparr>)"
proof -
  have B: "currentTask (loadData tracker_B) = Some task_B"
    by (simp add: tracker_B_def loadData_def)
  have N: "currentTask (loadData new_TaskTracker) = None"
    by (simp add: new_TaskTracker_eq loadData_def)
  have W: "write_ok (env_at 2000)" "write_ok (env_at 3000)"
    by (simp_all add: env_at_def)
  note low = updateProgress_behaviour [of tracker_B "env_at 2000" "- 1" "''x''" task_B]
  note high = updateProgress_behaviour [of tracker_B "env_at 2000" 101 "''x''" task_B]
  note none = updateProgress_behaviour [of new_TaskTracker "env_at 2000" 50 "''x''" task_B]
  note zero = updateProgress_behaviour [of tracker_B "env_at 2000" 0 "''x''" task_B]
  note full = updateProgress_behaviour [of tracker_B "env_at 2000" 100 "''x''" task_B]
  let ?s = "after (updateProgress (env_at 2000) 100 ''x'' tracker_B)"
  let ?t = "task_B\<lparr>progress := 100,
         updates := [\<lparr>upd_timestamp = 2000, upd_progress = 100, upd_message = ''x''\<rparr>]\<rparr>"
  have F: "currentTask (loadData ?s) = Some ?t"
    using full B W by (simp add: task_B_def env_at_def)
  note down = updateProgress_behaviour [of ?s "env_at 3000" 40 "''y''" ?t]
  have 1: "updateProgress (env_at 2000) (- 1) ''x'' tracker_B =
     (Inr (), [ConsoleLog ''Progress percentage must be between 0 and 100''], tracker_B)"
    using low B by simp
  have 2: "updateProgress (env_at 2000) 101 ''x'' tracker_B =
     (Inr (), [ConsoleLog ''Progress percentage must be between 0 and 100''], tracker_B)"
    using high B by simp
  have 3: "updateProgress (env_at 2000) 50 ''x'' new_TaskTracker =
     (Inr (),
      [ConsoleLog ''No active task found. Start a task first with: warp-tracker start Task name''],
      new_TaskTracker)"
    using none N by simp
  have 4: "currentTask (loadData (after (updateProgress (env_at 2000) 0 ''x'' tracker_B))) =
       Some (task_B\<lparr>progress := 0,
         updates := [\<lparr>upd_timestamp = 2000, upd_progress = 0, upd_message = ''x''\<rparr>]\<rparr>)"
    using zero B W by (simp add: task_B_def env_at_def)
  have 6: "currentTask (loadData (after (updateProgress (env_at 3000) 40 ''y'' ?s))) =
       Some (task_B\<lparr>progress := 40,
         updates := [\<lparr>upd_timestamp = 2000, upd_progress = 100, upd_message = ''x''\<rparr>,
                     \<lparr>upd_timestamp = 3000, upd_progress = 40, upd_message = ''y''\<rparr>]\<rparr>)"
    using down F W by (simp add: task_B_def env_at_def)
  from 1 2 3 4 F 6 show ?thesis by simp
qed

subsection \<open>C7: one task per session\<close>

text \<open>
  C7: \<open>createTaskForSession\<close> is idempotent on the session id. After a first call for
  a session, and after any calls of the eight operations that do not retire that session,
  a second call for the session returns a task with the same id as the first and leaves
  the tracker exactly as it found it: no second task is bound and the history is
  unchanged.
\<close>

theorem createTaskForSession_idempotent:
  assumes "\<forall>(e, c) \<in> set cs. c \<noteq> HandleClosedSession (sessionId x)"
  shows "\<exists>t1 t2.
           fst (createTaskForSession e1 x s) = Some t1
         \<and> fst (createTaskForSession e2 x (run_ops cs (snd (createTaskForSession e1 x s)))) = Some t2
         \<and> task_id t2 = task_id t1
         \<and> snd (createTaskForSession e2 x (run_ops cs (snd (createTaskForSession e1 x s))))
             = run_ops cs (snd (createTaskForSession e1 x s))"
proof -
  obtain t1 where t1: "fst (createTaskForSession e1 x s) = Some t1"
    "map_of (activeTasks (snd (createTaskForSession e1 x s))) (sessionId x) = Some t1"
    using createTask_binds by blast
  from run_ops_keeps_binding [OF assms t1(2)]
  obtain t2 where t2:
    "map_of (activeTasks (run_ops cs (snd (createTaskForSession e1 x s)))) (sessionId x) = Some t2"
    "task_id t2 = task_id t1" by blast
  from createTask_bound [OF t2(1), of e2] t1(1) t2(2) show ?thesis by simp
qed

text \<open>
  C7 on a first-run tracker, with a progress update of the session's task, a manual
  start, and the creation and retirement of a task for another session between the two
  calls.
\<close>

theorem createTaskForSession_idempotent_witness:
  "map_option task_id (fst (createTaskForSession (env_at 5000) session_1 new_TaskTracker))
     = Some ''warp_1_5000''
   \<and> map_option task_id (fst (createTaskForSession (env_at 9000) session_1
         (run_ops calls_between (snd (createTaskForSession (env_at 5000) session_1 new_TaskTracker)))))
     = Some ''warp_1_5000''
   \<and> snd (createTaskForSession (env_at 9000) session_1
         (run_ops calls_between (snd (createTaskForSession (env_at 5000) session_1 new_TaskTracker))))
     = run_ops calls_between (snd (createTaskForSession (env_at 5000) session_1 new_TaskTracker))"
proof -
  have h: "\<forall>(e, c) \<in> set calls_between. c \<noteq> HandleClosedSession (sessionId session_1)"
    by (simp add: calls_between_def session_1_def)
  have first: "map_option task_id (fst (createTaskForSession (env_at 5000) session_1 new_TaskTracker))
     = Some ''warp_1_5000''"
    by (simp add: createTaskForSession_def eval_defs)
  from createTaskForSession_idempotent [OF h, of "env_at 5000" new_TaskTracker "env_at 9000"] first
  show ?thesis by auto
qed

subsection \<open>C8: switching the current task to a session's task\<close>

text \<open>
  C8: \<open>setCurrentTaskFromSession\<close> fails with the error "no task found for session"
  when no task is bound to the session id. Otherwise it makes no conflict check: whatever
  the current task was, it writes the bound task as the current one and resolves with it.
  The only other failure is that of the write itself, which leaves the tracker as it was.
\<close>

theorem setCurrentTaskFromSession_behaviour:
  "(map_of (activeTasks s) sid = None \<longrightarrow>
      setCurrentTaskFromSession e sid s = (Inl (NoTaskForSession sid), [], s))
   \<and> (map_of (activeTasks s) sid = Some t \<and> write_ok e \<longrightarrow>
      outcome (setCurrentTaskFromSession e sid s) = Inr t \<and>
      loadData (after (setCurrentTaskFromSession e sid s)) = (loadData s)\<lparr>currentTask := Some t\<rparr>)
   \<and> (map_of (activeTasks s) sid = Some t \<and> \<not> write_ok e \<longrightarrow>
      setCurrentTaskFromSession e sid s = (Inl WriteFailed, [], s))"
  by (simp add: setCurrent_unbound setCurrent_ok setCurrent_write_failed outcome_def after_def)

text \<open>
  C8 at a tracker whose current task is the manual task B and whose only bound task
  belongs to \<open>warp_1\<close>: the switch to \<open>warp_9\<close> fails, the switch to \<open>warp_1\<close>
  succeeds although B is current.
\<close>

theorem setCurrentTaskFromSession_behaviour_witness:
  "setCurrentTaskFromSession (env_at 6000) ''warp_9'' tracker_B_S1 =
     (Inl (NoTaskForSession ''warp_9''), [], tracker_B_S1)
   \<and> currentTask (loadData tracker_B_S1) = Some task_B
   \<and> task_B \<noteq> task_S1
   \<and> outcome (setCurrentTaskFromSession (env_at 6000) ''warp_1'' tracker_B_S1) = Inr task_S1
   \<and> loadData (after (setCurrentTaskFromSession (env_at 6000) ''warp_1'' tracker_B_S1)) =
       \<lparr>currentTask = Some task_S1, history = []\<rparr>
   \<and> setCurrentTaskFromSession \<lparr>now = 6000, write_ok = False\<rparr> ''warp_1'' tracker_B_S1 =
       (Inl WriteFailed, [], tracker_B_S1)"
proof -
  have U: "map_of (activeTasks tracker_B_S1) ''warp_9'' = None"
    and B: "map_of (activeTasks tracker_B_S1) ''warp_1'' = Some task_S1"
    and C: "loadData tracker_B_S1 = \<lparr>currentTask = Some task_B, history = []\<rparr>"
    and D: "task_B \<noteq> task_S1"
    by (simp_all add: tracker_B_S1_def loadData_def task_B_def task_S1_def)
  from U B C D
    setCurrentTaskFromSession_behaviour [of tracker_B_S1 "''warp_9''" "env_at 6000" task_S1]
    setCurrentTaskFromSession_behaviour [of tracker_B_S1 "''warp_1''" "env_at 6000" task_S1]
    setCurrentTaskFromSession_behaviour
      [of tracker_B_S1 "''warp_1''" "\<lparr>now = 6000, write_ok = False\<rparr>" task_S1]
  show ?thesis by (simp add: env_at_def)
qed

subsection \<open>C9: what a switch does to the superseded task\<close>

text \<open>
  C9 (as stated): when \<open>setCurrentTaskFromSession\<close> succeeds while a different task T
  is current, the data file afterwards has the bound task as current, the history is
  unchanged, and T appears nowhere in the data file.

  The last part fails where T is already an entry of the history. From a first-run
  tracker: the retirement of the first session's task fails at its write, which leaves
  the stopped task T in the map; T is made current, stopped by hand and made current
  again. T is now current and in the history. The switch to the second session's task
  succeeds, and T is still in the history afterwards.
\<close>

theorem switch_keeps_history_entry_of_superseded_task:
  "currentTask (loadData (run_ops calls_current_in_history new_TaskTracker))
     = Some (task_S1\<lparr>endTime := Some 7000, status := Stopped\<rparr>)
   \<and> outcome (setCurrentTaskFromSession (env_at 8000) ''warp_2''
         (run_ops calls_current_in_history new_TaskTracker)) = Inr task_S2
   \<and> task_S1\<lparr>endTime := Some 7000, status := Stopped\<rparr> \<noteq> task_S2
   \<and> loadData (after (setCurrentTaskFromSession (env_at 8000) ''warp_2''
         (run_ops calls_current_in_history new_TaskTracker)))
     = \<lparr>currentTask = Some task_S2,
        history = [task_S1\<lparr>endTime := Some 7000, status := Stopped\<rparr>]\<rparr>"
  by (simp add: calls_current_in_history_def setCurrentTaskFromSession_def
      createTaskForSession_def handleClosedSession_def stopTask_def task_S2_def eval_defs)

text \<open>
  C9 (amended): when \<open>setCurrentTaskFromSession\<close> succeeds while a different task T is
  current, the data file afterwards has the bound task as current and exactly the history
  it had before. The switch neither retires T nor removes anything: T is no longer
  current, and T, or a record with the id of T, is in the history afterwards exactly
  when it was there before the call.
\<close>

theorem switch_leaves_history_unchanged:
  assumes "outcome (setCurrentTaskFromSession e sid s) = Inr b"
    and "currentTask (loadData s) = Some T"
    and "T \<noteq> b"
  shows "currentTask (loadData (after (setCurrentTaskFromSession e sid s))) = Some b
       \<and> history (loadData (after (setCurrentTaskFromSession e sid s))) = history (loadData s)
       \<and> currentTask (loadData (after (setCurrentTaskFromSession e sid s))) \<noteq> Some T
       \<and> (T \<in> set (history (loadData (after (setCurrentTaskFromSession e sid s))))
            \<longleftrightarrow> T \<in> set (history (loadData s)))
       \<and> (task_id T \<in> task_id ` set (history (loadData (after (setCurrentTaskFromSession e sid s))))
            \<longleftrightarrow> task_id T \<in> task_id ` set (history (loadData s)))"
proof -
  from setCurrent_resolved [OF assms(1)]
  have "map_of (activeTasks s) sid = Some b" "write_ok e" by simp_all
  then have "loadData (after (setCurrentTaskFromSession e sid s))
               = (loadData s)\<lparr>currentTask := Some b\<rparr>"
    by (simp add: setCurrent_ok after_def)
  with assms show ?thesis by auto
qed

text \<open>
  C9 (amended) at two trackers. Where the manual task B is current and the history is
  empty, the switch to \<open>warp_1\<close> leaves the session's task as current and an empty
  history: B is gone. Where the first session's task is current again after having been
  stopped by hand, the switch to \<open>warp_2\<close> leaves the history with the retired record
  that carries the id of the superseded task.
\<close>

theorem switch_leaves_history_unchanged_witness:
  "currentTask (loadData tracker_B_S1) = Some task_B
   \<and> loadData (after (setCurrentTaskFromSession (env_at 6000) ''warp_1'' tracker_B_S1))
     = \<lparr>currentTask = Some task_S1, history = []\<rparr>
   \<and> currentTask (loadData (run_ops calls_current_id_in_history new_TaskTracker))
     = Some task_S1
   \<and> loadData (after (setCurrentTaskFromSession (env_at 8000) ''warp_2''
         (run_ops calls_current_id_in_history new_TaskTracker)))
     = \<lparr>currentTask = Some task_S2,
        history = [task_S1\<lparr>endTime := Some 6500, status := Stopped\<rparr>]\<rparr>
   \<and> task_id (task_S1\<lparr>endTime := Some 6500, status := Stopped\<rparr>) = task_id task_S1"
proof -
  have 1: "outcome (setCurrentTaskFromSession (env_at 6000) ''warp_1'' tracker_B_S1) = Inr task_S1"
    by (simp add: setCurrentTaskFromSession_def eval_defs)
  have 2: "loadData tracker_B_S1 = \<lparr>currentTask = Some task_B, history = []\<rparr>"
    by (simp add: tracker_B_S1_def loadData_def)
  have 3: "task_B \<noteq> task_S1"
    by (simp add: task_B_def task_S1_def)
  let ?s = "run_ops calls_current_id_in_history new_TaskTracker"
  have s: "?s = \<lparr>dataFile = Some \<lparr>currentTask = Some task_S1,
              history = [task_S1\<lparr>endTime := Some 6500, status := Stopped\<rparr>]\<rparr>,
            activeTasks = [(''warp_1'', task_S1), (''warp_2'', task_S2)],
            initStage = InitFinished\<rparr>"
    by (simp add: calls_current_id_in_history_def setCurrentTaskFromSession_def
        createTaskForSession_def stopTask_def task_S2_def eval_defs)
  have 4: "outcome (setCurrentTaskFromSession (env_at 8000) ''warp_2'' ?s) = Inr task_S2"
    unfolding s by (simp add: setCurrentTaskFromSession_def eval_defs)
  have 5: "loadData ?s = \<lparr>currentTask = Some task_S1,
              history = [task_S1\<lparr>endTime := Some 6500, status := Stopped\<rparr>]\<rparr>"
    unfolding s by (simp add: loadData_def)
  have 6: "task_S1 \<noteq> task_S2"
    by (simp add: task_S1_def task_S2_def)
  have a: "loadData (after (setCurrentTaskFromSession (env_at 6000) ''warp_1'' tracker_B_S1))
     = \<lparr>currentTask = Some task_S1, history = []\<rparr>"
    using switch_leaves_history_unchanged [OF 1 _ 3] 2
    by (cases "loadData (after (setCurrentTaskFromSession (env_at 6000) ''warp_1'' tracker_B_S1))")
       simp
  have b: "loadData (after (setCurrentTaskFromSession (env_at 8000) ''warp_2'' ?s))
     = \<lparr>currentTask = Some task_S2,
        history = [task_S1\<lparr>endTime := Some 6500, status := Stopped\<rparr>]\<rparr>"
    using switch_leaves_history_unchanged [OF 4 _ 6] 5
    by (cases "loadData (after (setCurrentTaskFromSession (env_at 8000) ''warp_2'' ?s))")
       simp
  from a b 2 5 show ?thesis by simp
qed

subsection \<open>C10: the active-sessions map and the snapshot\<close>

text \<open>
  C10: for every non-empty sequence of polls from the registry the constructor builds,
  the key set of \<open>activeSessions\<close> equals the snapshot \<open>lastKnownSessions\<close>, which
  equals the set of session ids the most recent call of \<open>getWarpSessions\<close> returned.
  The statement holds for every sequence, hence after each poll of a longer run.
\<close>

theorem active_sessions_match_snapshot:
  assumes "ps \<noteq> []"
  shows "Map_keys (activeSessions (poll_sequence ps new_WarpSessionManager))
           = set (lastKnownSessions (poll_sequence ps new_WarpSessionManager))
       \<and> set (lastKnownSessions (poll_sequence ps new_WarpSessionManager))
           = sessionId ` set (getWarpSessions (last ps))"
proof -
  have inv: "Map_keys (activeSessions new_WarpSessionManager)
               = set (lastKnownSessions new_WarpSessionManager)"
    by (simp add: new_WarpSessionManager_def Map_keys_def)
  obtain qs q where ps: "ps = qs @ [q]"
    using assms by (metis rev_exhaust)
  have "set (lastKnownSessions (poll_sequence ps new_WarpSessionManager))
          = sessionId ` set (getWarpSessions (last ps))"
    by (simp add: ps poll_sequence_snoc detect_lastKnown set_new_Set)
  with poll_sequence_keys [OF inv, of ps] show ?thesis by simp
qed

text \<open>
  C10 at three polls: two windows seen, then a failed probe, then the second window
  alone.
\<close>

theorem active_sessions_match_snapshot_witness:
  "[ProbeOk [session_1, session_2], ProbeFailed, ProbeOk [session_2]] \<noteq> []
   \<and> Map_keys (activeSessions (poll_sequence
         [ProbeOk [session_1, session_2], ProbeFailed, ProbeOk [session_2]]
         new_WarpSessionManager)) = {''warp_2''}
   \<and> set (lastKnownSessions (poll_sequence
         [ProbeOk [session_1, session_2], ProbeFailed, ProbeOk [session_2]]
         new_WarpSessionManager)) = {''warp_2''}"
  using active_sessions_match_snapshot
    [of "[ProbeOk [session_1, session_2], ProbeFailed, ProbeOk [session_2]]"]
  by (simp add: session_2_def)

end
